theory Spec2Isabelle
  imports Complex_Main
begin

section \<open>JavaScript numbers\<close>

text \<open>
  A JavaScript \<^verbatim>\<open>number\<close> is an IEEE double. The model keeps the three special
  values apart and follows the language on their arithmetic and comparisons. It
  takes the finite values as exact reals and the two zeros as one: the rounding
  of a finite result to the nearest double, and the overflow of a finite result
  to an infinity, are not modelled. What is proved below rests on the special
  values, on comparisons and on the structure of the code; no statement about
  the digits or the error of a rounded finite result is made.
\<close>

datatype number = Fin real | PInf | NInf | NaN

fun js_add :: "number \<Rightarrow> number \<Rightarrow> number" where
  "js_add NaN _ = NaN"
| "js_add _ NaN = NaN"
| "js_add PInf NInf = NaN"
| "js_add NInf PInf = NaN"
| "js_add PInf _ = PInf"
| "js_add _ PInf = PInf"
| "js_add NInf _ = NInf"
| "js_add _ NInf = NInf"
| "js_add (Fin a) (Fin b) = Fin (a + b)"

fun js_neg :: "number \<Rightarrow> number" where
  "js_neg (Fin a) = Fin (- a)"
| "js_neg PInf = NInf"
| "js_neg NInf = PInf"
| "js_neg NaN = NaN"

definition js_sub :: "number \<Rightarrow> number \<Rightarrow> number" where
  "js_sub a b = js_add a (js_neg b)"

fun js_mul :: "number \<Rightarrow> number \<Rightarrow> number" where
  "js_mul NaN _ = NaN"
| "js_mul _ NaN = NaN"
| "js_mul (Fin a) (Fin b) = Fin (a * b)"
| "js_mul (Fin a) PInf = (if a = 0 then NaN else if 0 < a then PInf else NInf)"
| "js_mul (Fin a) NInf = (if a = 0 then NaN else if 0 < a then NInf else PInf)"
| "js_mul PInf (Fin b) = (if b = 0 then NaN else if 0 < b then PInf else NInf)"
| "js_mul NInf (Fin b) = (if b = 0 then NaN else if 0 < b then NInf else PInf)"
| "js_mul PInf PInf = PInf"
| "js_mul PInf NInf = NInf"
| "js_mul NInf PInf = NInf"
| "js_mul NInf NInf = PInf"

fun js_div :: "number \<Rightarrow> number \<Rightarrow> number" where
  "js_div NaN _ = NaN"
| "js_div _ NaN = NaN"
| "js_div (Fin a) (Fin b) =
     (if b = 0 then (if a = 0 then NaN else if 0 < a then PInf else NInf)
      else Fin (a / b))"
| "js_div (Fin a) PInf = Fin 0"
| "js_div (Fin a) NInf = Fin 0"
| "js_div PInf (Fin b) = (if 0 \<le> b then PInf else NInf)"
| "js_div NInf (Fin b) = (if 0 \<le> b then NInf else PInf)"
| "js_div _ _ = NaN"

text \<open>The remainder operator \<^verbatim>\<open>%\<close>: the quotient is truncated towards zero, so the
  result has the sign of the dividend.\<close>

definition trunc :: "real \<Rightarrow> int" where
  "trunc x = (if 0 \<le> x then \<lfloor>x\<rfloor> else \<lceil>x\<rceil>)"

fun js_mod :: "number \<Rightarrow> number \<Rightarrow> number" where
  "js_mod NaN _ = NaN"
| "js_mod _ NaN = NaN"
| "js_mod PInf _ = NaN"
| "js_mod NInf _ = NaN"
| "js_mod (Fin a) PInf = Fin a"
| "js_mod (Fin a) NInf = Fin a"
| "js_mod (Fin a) (Fin b) = (if b = 0 then NaN else Fin (a - b * of_int (trunc (a / b))))"

fun Math_floor :: "number \<Rightarrow> number" where
  "Math_floor (Fin a) = Fin (of_int \<lfloor>a\<rfloor>)"
| "Math_floor x = x"

fun js_lt :: "number \<Rightarrow> number \<Rightarrow> bool" where
  "js_lt NaN _ = False"
| "js_lt _ NaN = False"
| "js_lt (Fin a) (Fin b) = (a < b)"
| "js_lt _ NInf = False"
| "js_lt NInf _ = True"
| "js_lt PInf _ = False"
| "js_lt _ PInf = True"

definition js_gt :: "number \<Rightarrow> number \<Rightarrow> bool" where
  "js_gt a b = js_lt b a"

definition js_ge :: "number \<Rightarrow> number \<Rightarrow> bool" where
  "js_ge a b = (a \<noteq> NaN \<and> b \<noteq> NaN \<and> \<not> js_lt a b)"

definition isNaN :: "number \<Rightarrow> bool" where
  "isNaN x = (x = NaN)"

text \<open>\<^verbatim>\<open>Math.max\<close> of two numbers: NaN when either is.\<close>

definition Math_max :: "number \<Rightarrow> number \<Rightarrow> number" where
  "Math_max a b = (if a = NaN \<or> b = NaN then NaN else if js_lt a b then b else a)"

text \<open>The truth value of a number in a condition: \<^verbatim>\<open>0\<close> and \<^verbatim>\<open>NaN\<close> are false.\<close>

definition truthy :: "number \<Rightarrow> bool" where
  "truthy x = (x \<noteq> Fin 0 \<and> x \<noteq> NaN)"

section \<open>JavaScript strings\<close>

text \<open>
  A string is a list of code units; the model covers the code units below 256,
  one \<^typ>\<open>char\<close> each. \<^verbatim>\<open>trim\<close>, \<^verbatim>\<open>parseInt\<close>, \<^verbatim>\<open>parseFloat\<close> and the class
  \<^verbatim>\<open>\s\<close> of a regular expression share one set of white space characters.
\<close>

definition isWhiteSpace :: "char \<Rightarrow> bool" where
  "isWhiteSpace c = (c \<in> set [CHR 0x09, CHR 0x0A, CHR 0x0B, CHR 0x0C, CHR 0x0D, CHR 0x20, CHR 0xA0])"

definition isDigit :: "char \<Rightarrow> bool" where
  "isDigit c = (c \<in> set ''0123456789'')"

text \<open>The value of a digit, from its code unit (\<^verbatim>\<open>0\<close> is 48).\<close>

definition digitVal :: "char \<Rightarrow> nat" where
  "digitVal c = of_char c - 48"

definition digitChar :: "nat \<Rightarrow> char" where
  "digitChar d = ''0123456789'' ! (d mod 10)"

definition trimStart :: "string \<Rightarrow> string" where
  "trimStart s = dropWhile isWhiteSpace s"

definition trimEnd :: "string \<Rightarrow> string" where
  "trimEnd s = rev (dropWhile isWhiteSpace (rev s))"

definition trim :: "string \<Rightarrow> string" where
  "trim s = trimEnd (trimStart s)"

definition padStart :: "nat \<Rightarrow> char \<Rightarrow> string \<Rightarrow> string" where
  "padStart n c s = replicate (n - length s) c @ s"

definition startsWith :: "string \<Rightarrow> string \<Rightarrow> bool" where
  "startsWith s p = (take (length p) s = p)"

definition endsWith :: "string \<Rightarrow> string \<Rightarrow> bool" where
  "endsWith s p = (length p \<le> length s \<and> drop (length s - length p) s = p)"

fun includesStr :: "string \<Rightarrow> string \<Rightarrow> bool" where
  "includesStr [] p = (p = [])"
| "includesStr (c # cs) p = (startsWith (c # cs) p \<or> includesStr cs p)"

text \<open>\<^verbatim>\<open>s.split(c)\<close> for a one-character separator: one piece more than separators.\<close>

fun splitChar :: "char \<Rightarrow> string \<Rightarrow> string list" where
  "splitChar c [] = [[]]"
| "splitChar c (x # xs) =
     (if x = c then [] # splitChar c xs
      else (case splitChar c xs of p # ps \<Rightarrow> (x # p) # ps | [] \<Rightarrow> [[x]]))"

fun join :: "string \<Rightarrow> string list \<Rightarrow> string" where
  "join sep [] = []"
| "join sep [x] = x"
| "join sep (x # y # ys) = x @ sep @ join sep (y # ys)"

subsection \<open>Numbers to strings\<close>

function digitsOf :: "nat \<Rightarrow> string" where
  "digitsOf n = (if n < 10 then [digitChar n] else digitsOf (n div 10) @ [digitChar (n mod 10)])"
  by pat_completeness auto
termination
  by (relation "measure id") auto

declare digitsOf.simps [simp del]

text \<open>
  \<^verbatim>\<open>Number.prototype.toString\<close> of a non-negative integer: the decimal digits up to
  21 of them, and from \<^verbatim>\<open>1e+21\<close> on the exponent form, whose mantissa drops the
  trailing zeros. The digits are those of the exact integer; from \<open>2 ^ 53\<close> on
  JavaScript prints the shortest digits that identify the double, which may be
  fewer.
\<close>

definition stripTrailingZeros :: "string \<Rightarrow> string" where
  "stripTrailingZeros ds = rev (dropWhile (\<lambda>c. c = CHR ''0'') (rev ds))"

definition nat_toString :: "nat \<Rightarrow> string" where
  "nat_toString n =
     (let ds = digitsOf n in
      if length ds \<le> 21 then ds
      else (let sig = stripTrailingZeros ds in
            (hd sig # (if 1 < length sig then CHR ''.'' # tl sig else []))
              @ ''e+'' @ digitsOf (length ds - 1)))"

text \<open>
  \<^verbatim>\<open>toString\<close> of a number. formatTimestamp converts results of \<^verbatim>\<open>Math.floor\<close>
  only: integers, NaN and the infinities. A finite value prints the digits of
  its integer part; the fraction digits of a value that is no integer are not
  modelled.
\<close>

fun Number_toString :: "number \<Rightarrow> string" where
  "Number_toString NaN = ''NaN''"
| "Number_toString PInf = ''Infinity''"
| "Number_toString NInf = ''-Infinity''"
| "Number_toString (Fin a) =
     (if a < 0 then CHR ''-'' # nat_toString (nat \<lceil>- a\<rceil>) else nat_toString (nat \<lfloor>a\<rfloor>))"

subsection \<open>Strings to numbers\<close>

definition digitsVal :: "string \<Rightarrow> nat" where
  "digitsVal ds = foldl (\<lambda>acc c. 10 * acc + digitVal c) 0 ds"

text \<open>An optional sign at the head of a string: the factor and the rest.\<close>

fun takeSign :: "string \<Rightarrow> real \<times> string" where
  "takeSign [] = (1, [])"
| "takeSign (c # cs) =
     (if c = CHR ''-'' then (- 1, cs) else if c = CHR ''+'' then (1, cs) else (1, c # cs))"

text \<open>\<^verbatim>\<open>parseInt(s, 10)\<close>: leading white space, a sign, then the longest run of
  digits; NaN when there is no digit.\<close>

definition parseInt :: "string \<Rightarrow> number" where
  "parseInt s =
     (let (sign, r) = takeSign (trimStart s); ds = takeWhile isDigit r in
      if ds = [] then NaN else Fin (sign * real (digitsVal ds)))"

text \<open>The exponent part of a decimal literal: \<^verbatim>\<open>e\<close> or \<^verbatim>\<open>E\<close>, a sign, digits. Without
  a digit there is no exponent part and the factor is 1.\<close>

definition exponentFactor :: "string \<Rightarrow> real" where
  "exponentFactor r =
     (case r of
        [] \<Rightarrow> 1
      | c # cs \<Rightarrow>
          if c = CHR ''e'' \<or> c = CHR ''E'' then
            (let (sign, r') = takeSign cs; ds = takeWhile isDigit r' in
             if ds = [] then 1
             else if sign < 0 then 1 / 10 ^ digitsVal ds else 10 ^ digitsVal ds)
          else 1)"

text \<open>
  \<^verbatim>\<open>parseFloat(s)\<close>: leading white space, then the longest prefix that is a decimal
  literal (a sign; \<^verbatim>\<open>Infinity\<close>, or digits with an optional fraction and exponent,
  or a fraction that starts with the point); NaN when there is none. The value
  of a literal is its exact decimal value, where JavaScript takes the nearest
  double and an infinity beyond the largest one.
\<close>

definition parseFloat :: "string \<Rightarrow> number" where
  "parseFloat s =
     (let (sign, r) = takeSign (trimStart s) in
      if startsWith r ''Infinity'' then (if sign < 0 then NInf else PInf)
      else
        (let ip = takeWhile isDigit r;
             r1 = dropWhile isDigit r;
             hasPoint = (r1 \<noteq> [] \<and> hd r1 = CHR ''.'');
             fp = (if hasPoint then takeWhile isDigit (tl r1) else []);
             r2 = (if hasPoint then dropWhile isDigit (tl r1) else r1)
         in if ip = [] \<and> fp = [] then NaN
            else Fin (sign * (real (digitsVal ip) + real (digitsVal fp) / 10 ^ length fp)
                        * exponentFactor r2)))"

subsection \<open>Optional strings, sets of strings, line breaks\<close>

text \<open>\<^verbatim>\<open>a || b\<close> on an optional string: \<^verbatim>\<open>undefined\<close> and the empty string are false.\<close>

definition strTruthy :: "string option \<Rightarrow> bool" where
  "strTruthy a = (case a of None \<Rightarrow> False | Some s \<Rightarrow> s \<noteq> [])"

definition strOr :: "string option \<Rightarrow> string \<Rightarrow> string" where
  "strOr a b = (case a of None \<Rightarrow> b | Some s \<Rightarrow> if s = [] then b else s)"

text \<open>\<^verbatim>\<open>Array.from(new Set(xs))\<close>: the distinct elements in the order of their first
  occurrence.\<close>

definition uniq :: "'a list \<Rightarrow> 'a list" where
  "uniq xs = foldl (\<lambda>acc x. if x \<in> set acc then acc else acc @ [x]) [] xs"

definition nl :: string where
  "nl = [CHR 0x0A]"

definition dq :: string where
  "dq = [CHR 0x22]"

text \<open>\<^verbatim>\<open>s.split(',').map(s => s.trim())\<close>\<close>

definition splitNames :: "string \<Rightarrow> string list" where
  "splitNames s = map trim (splitChar CHR '','' s)"

section \<open>The timestamp codec\<close>

text \<open>formatTimestamp. On a finite input the quotients, remainders and products
  are exact here and rounded to doubles in the code, so the digits of the
  fraction can differ by one in the last place.\<close>

definition formatTimestamp :: "number \<Rightarrow> nat \<Rightarrow> string" where
  "formatTimestamp seconds precision =
     (if isNaN seconds \<or> js_lt seconds (Fin 0)
      then (if precision = 3 then ''00:00.000'' else ''00:00.00'')
      else
        (let hours = Math_floor (js_div seconds (Fin 3600));
             minutes = Math_floor (js_div (js_mod seconds (Fin 3600)) (Fin 60));
             secs = Math_floor (js_mod seconds (Fin 60));
             ms = js_mod seconds (Fin 1);
             mStr = padStart 2 CHR ''0'' (Number_toString minutes);
             sStr = padStart 2 CHR ''0'' (Number_toString secs);
             msStr = (if precision = 3
                      then padStart 3 CHR ''0'' (Number_toString (Math_floor (js_mul ms (Fin 1000))))
                      else padStart 2 CHR ''0'' (Number_toString (Math_floor (js_mul ms (Fin 100)))));
             timeBase = (if js_gt hours (Fin 0)
                         then Number_toString hours @ '':'' @ mStr @ '':'' @ sStr
                         else mStr @ '':'' @ sStr)
         in timeBase @ ''.'' @ msStr))"

text \<open>\<^verbatim>\<open>replace(/[\[\]<>]/g, '')\<close>\<close>

definition removeBrackets :: "string \<Rightarrow> string" where
  "removeBrackets s = filter (\<lambda>c. c \<notin> set ''[]<>'') s"

text \<open>
  Nothing in the body of parseTimestamp can throw (\<^verbatim>\<open>parseInt\<close> and \<^verbatim>\<open>parseFloat\<close>
  return NaN), so the \<^verbatim>\<open>catch\<close> branch is never taken and the model has no error
  value.
\<close>

definition parseTimestamp :: "string \<Rightarrow> number" where
  "parseTimestamp timeStr =
     (if timeStr = [] then Fin 0
      else
        (let cleanStr = removeBrackets (trim timeStr);
             parts = splitChar CHR '':'' cleanStr
         in if length parts = 3 then
              (let h = parseInt (parts ! 0); m = parseInt (parts ! 1); s = parseFloat (parts ! 2)
               in js_add (js_add (js_mul h (Fin 3600)) (js_mul m (Fin 60))) s)
            else if length parts = 2 then
              (let m = parseInt (parts ! 0); s = parseFloat (parts ! 1)
               in js_add (js_mul m (Fin 60)) s)
            else if \<not> isNaN (parseFloat cleanStr) then parseFloat cleanStr
            else Fin 0))"

subsection \<open>Notions used to state the codec's properties\<close>

text \<open>
  A text begins with a number when, after leading white space and a sign, it
  continues with \<^verbatim>\<open>Infinity\<close>, a digit, or a point and a digit: then \<^verbatim>\<open>parseFloat\<close>
  reads a number off its front, whatever follows.
\<close>

definition beginsWithNumber :: "string \<Rightarrow> bool" where
  "beginsWithNumber t =
     (let r = snd (takeSign (trimStart t)) in
      startsWith r ''Infinity'' \<or> (r \<noteq> [] \<and> isDigit (hd r)) \<or>
      (2 \<le> length r \<and> hd r = CHR ''.'' \<and> isDigit (r ! 1)))"

text \<open>
  The accepted timestamp forms, in the words of the specification: H:MM:SS[.fff],
  MM:SS[.fff] or a bare decimal number, optionally wrapped in square or angle
  brackets. Every field is a non-empty run of digits.
\<close>

definition allDigits :: "string \<Rightarrow> bool" where
  "allDigits s = (s \<noteq> [] \<and> list_all isDigit s)"

definition decimalNumber :: "string \<Rightarrow> bool" where
  "decimalNumber s =
     (case splitChar CHR ''.'' s of
        [a] \<Rightarrow> allDigits a
      | [a, b] \<Rightarrow> allDigits a \<and> allDigits b
      | _ \<Rightarrow> False)"

definition unwrap :: "string \<Rightarrow> string" where
  "unwrap s =
     (if 2 \<le> length s \<and> ((hd s = CHR ''['' \<and> last s = CHR '']'') \<or> (hd s = CHR ''<'' \<and> last s = CHR ''>''))
      then butlast (tl s) else s)"

definition acceptedForm :: "string \<Rightarrow> bool" where
  "acceptedForm s =
     (case splitChar CHR '':'' (unwrap s) of
        [x] \<Rightarrow> decimalNumber x
      | [m, sec] \<Rightarrow> allDigits m \<and> decimalNumber sec
      | [h, m, sec] \<Rightarrow> allDigits h \<and> allDigits m \<and> decimalNumber sec
      | _ \<Rightarrow> False)"

section \<open>The document (types.ts)\<close>

datatype LyricsFormat = PLAIN | LRC | ELRC | TTML

text \<open>An optional field (\<^verbatim>\<open>endTime?\<close>) is an option: \<^verbatim>\<open>undefined\<close> is \<open>None\<close>.\<close>

record TimedWord =
  word_id :: string
  word_text :: string
  word_startTime :: number
  word_endTime :: "number option"
  word_isBackground :: "bool option"

record TimedLine =
  line_id :: string
  startTime :: number
  endTime :: "number option"
  words :: "TimedWord list"
  rawText :: string
  voice :: "string option"
  isBackground :: "bool option"
  attributes :: "(string \<times> string) list option"

text \<open>The metadata object: the keys the parsers and generators touch, and the open
  \<^verbatim>\<open>custom\<close> bag as an association list in insertion order.\<close>

record Metadata =
  title :: "string option"
  artist :: "string option"
  album :: "string option"
  author :: "string option"
  createdBy :: "string option"
  creator :: "string option"
  version :: "string option"
  offset :: "number option"
  language :: "string option"
  songwriters :: "string list option"
  custom :: "(string \<times> string) list option"

record LyricsDocument =
  format :: LyricsFormat
  lines :: "TimedLine list"
  metadata :: Metadata

section \<open>shiftTimestamps\<close>

text \<open>\<^verbatim>\<open>x.endTime ? Math.max(0, x.endTime + offsetSeconds) : undefined\<close>: the condition
  is the truth value of the field, so an absent end time, \<^verbatim>\<open>0\<close> and \<^verbatim>\<open>NaN\<close> all give
  \<^verbatim>\<open>undefined\<close>.\<close>

definition shiftEnd :: "number option \<Rightarrow> number \<Rightarrow> number option" where
  "shiftEnd e offsetSeconds =
     (case e of
        None \<Rightarrow> None
      | Some t \<Rightarrow> if truthy t then Some (Math_max (Fin 0) (js_add t offsetSeconds)) else None)"

definition shiftWord :: "number \<Rightarrow> TimedWord \<Rightarrow> TimedWord" where
  "shiftWord offsetSeconds w =
     w\<lparr>word_startTime := Math_max (Fin 0) (js_add (word_startTime w) offsetSeconds),
       word_endTime := shiftEnd (word_endTime w) offsetSeconds\<rparr>"

definition shiftLine :: "number \<Rightarrow> TimedLine \<Rightarrow> TimedLine" where
  "shiftLine offsetSeconds line =
     line\<lparr>startTime := Math_max (Fin 0) (js_add (startTime line) offsetSeconds),
          endTime := shiftEnd (endTime line) offsetSeconds,
          words := map (shiftWord offsetSeconds) (words line)\<rparr>"

definition shiftTimestamps :: "LyricsDocument \<Rightarrow> number \<Rightarrow> LyricsDocument" where
  "shiftTimestamps doc offsetSeconds = doc\<lparr>lines := map (shiftLine offsetSeconds) (lines doc)\<rparr>"

text \<open>The times of a document, and everything but the times.\<close>

definition wordTimes :: "TimedWord \<Rightarrow> number \<times> number option" where
  "wordTimes w = (word_startTime w, word_endTime w)"

definition lineTimes :: "TimedLine \<Rightarrow> number \<times> number option \<times> (number \<times> number option) list" where
  "lineTimes l = (startTime l, endTime l, map wordTimes (words l))"

definition docTimes :: "LyricsDocument \<Rightarrow> (number \<times> number option \<times> (number \<times> number option) list) list" where
  "docTimes doc = map lineTimes (lines doc)"

definition wordFrame :: "TimedWord \<Rightarrow> string \<times> string \<times> bool option" where
  "wordFrame w = (word_id w, word_text w, word_isBackground w)"

definition lineFrame ::
  "TimedLine \<Rightarrow> string \<times> string \<times> string option \<times> bool option \<times> (string \<times> string) list option
     \<times> (string \<times> string \<times> bool option) list" where
  "lineFrame l = (line_id l, rawText l, voice l, isBackground l, attributes l, map wordFrame (words l))"

text \<open>A start time the shift by zero keeps: not below zero and not NaN. An end time
  it keeps: absent, or above zero.\<close>

definition keptStart :: "number \<Rightarrow> bool" where
  "keptStart t = js_ge t (Fin 0)"

definition keptEnd :: "number option \<Rightarrow> bool" where
  "keptEnd e = (case e of None \<Rightarrow> True | Some t \<Rightarrow> js_gt t (Fin 0))"

definition keptWord :: "TimedWord \<Rightarrow> bool" where
  "keptWord w = (keptStart (word_startTime w) \<and> keptEnd (word_endTime w))"

definition keptLine :: "TimedLine \<Rightarrow> bool" where
  "keptLine l = (keptStart (startTime l) \<and> keptEnd (endTime l) \<and> list_all keptWord (words l))"

definition emptyMetadata :: Metadata where
  "emptyMetadata = \<lparr>title = None, artist = None, album = None, author = None, createdBy = None,
     creator = None, version = None, offset = None, language = None, songwriters = None,
     custom = None\<rparr>"

definition keptDoc :: LyricsDocument where
  "keptDoc = \<lparr>format = LRC,
     lines = [\<lparr>line_id = ''l1'', startTime = Fin 1, endTime = Some (Fin 6),
               words = [\<lparr>word_id = ''w1'', word_text = ''Hi'', word_startTime = Fin 1,
                         word_endTime = Some (Fin 6), word_isBackground = None\<rparr>],
               rawText = ''Hi'', voice = Some ''v1'', isBackground = Some False,
               attributes = None\<rparr>],
     metadata = emptyMetadata\<rparr>"

section \<open>The regular expressions of the parsers\<close>

text \<open>
  Each regular expression of lyrics.ts is a function that tries a match at the
  head of a string. None of them has a choice to revisit: every repetition is
  followed by a character outside its class, so the longest repetition is the
  only one that can lead to a match.
\<close>

definition isLetter :: "char \<Rightarrow> bool" where
  "isLetter c = (let n = (of_char c :: nat) in (65 \<le> n \<and> n \<le> 90) \<or> (97 \<le> n \<and> n \<le> 122))"

text \<open>\<^verbatim>\<open>.\<close> matches everything but a line terminator.\<close>

definition isLineTerminator :: "char \<Rightarrow> bool" where
  "isLineTerminator c = (c = CHR 0x0A \<or> c = CHR 0x0D)"

definition toLowerCase :: "string \<Rightarrow> string" where
  "toLowerCase s =
     map (\<lambda>c. let n = (of_char c :: nat)
              in if (65 \<le> n \<and> n \<le> 90) \<or> (192 \<le> n \<and> n \<le> 222 \<and> n \<noteq> 215) then char_of (n + 32) else c) s"

text \<open>\<^verbatim>\<open>\d{1,n}\<close>: at least one digit and at most \<open>n\<close>; the digits and the rest.\<close>

definition takeDigits :: "nat \<Rightarrow> string \<Rightarrow> (string \<times> string) option" where
  "takeDigits n s =
     (let ds = takeWhile isDigit (take n s)
      in if ds = [] then None else Some (ds, drop (length ds) s))"

text \<open>\<^verbatim>\<open>(?:c(\d{1,n}))?\<close>: the group and the rest; no group leaves the string as it is.\<close>

definition optGroup :: "char \<Rightarrow> nat \<Rightarrow> string \<Rightarrow> string option \<times> string" where
  "optGroup c n s =
     (case s of
        [] \<Rightarrow> (None, s)
      | x # r \<Rightarrow>
          if x = c then (case takeDigits n r of Some (ds, r') \<Rightarrow> (Some ds, r') | None \<Rightarrow> (None, s))
          else (None, s))"

text \<open>The result of a match: \<^verbatim>\<open>result[0]\<close> to \<^verbatim>\<open>result[4]\<close>; a group that took no part
  is \<^verbatim>\<open>undefined\<close>.\<close>

datatype TimeMatch =
  TimeMatch (whole: string) (group1: string) (group2: string)
    (group3: "string option") (group4: "string option")

text \<open>
  \<^verbatim>\<open>\[(\d{1,2}):(\d{1,2})(?::(\d{1,2}))?(?:\.(\d{1,3}))?\]\<close> at the head of a string,
  and the same between \<^verbatim>\<open><\<close> and \<^verbatim>\<open>>\<close> for a word tag.
\<close>

definition matchTime :: "char \<Rightarrow> char \<Rightarrow> string \<Rightarrow> TimeMatch option" where
  "matchTime opn cls s =
     (case s of
        [] \<Rightarrow> None
      | x # r \<Rightarrow>
          if x \<noteq> opn then None
          else
            (case takeDigits 2 r of
               None \<Rightarrow> None
             | Some (g1, r1) \<Rightarrow>
                 (case r1 of
                    [] \<Rightarrow> None
                  | y # r2 \<Rightarrow>
                      if y \<noteq> CHR '':'' then None
                      else
                        (case takeDigits 2 r2 of
                           None \<Rightarrow> None
                         | Some (g2, r3) \<Rightarrow>
                             (let (g3, r4) = optGroup CHR '':'' 2 r3;
                                  (g4, r5) = optGroup CHR ''.'' 3 r4
                              in case r5 of
                                   [] \<Rightarrow> None
                                 | z # r6 \<Rightarrow>
                                     if z = cls
                                     then Some (TimeMatch (take (length s - length r6) s) g1 g2 g3 g4)
                                     else None)))))"

definition lineTimeRegex :: "string \<Rightarrow> TimeMatch option" where
  "lineTimeRegex = matchTime CHR ''['' CHR '']''"

definition tagRegex :: "string \<Rightarrow> TimeMatch option" where
  "tagRegex = matchTime CHR ''<'' CHR ''>''"

text \<open>The leftmost match: the matcher is tried at every position in turn, the end
  of the string included.\<close>

fun searchFrom :: "(string \<Rightarrow> 'a option) \<Rightarrow> nat \<Rightarrow> string \<Rightarrow> (nat \<times> 'a) option" where
  "searchFrom m i [] = (case m [] of Some r \<Rightarrow> Some (i, r) | None \<Rightarrow> None)"
| "searchFrom m i (c # cs) =
     (case m (c # cs) of Some r \<Rightarrow> Some (i, r) | None \<Rightarrow> searchFrom m (i + 1) cs)"

text \<open>
  \<^verbatim>\<open>regex.exec(s)\<close> of a regular expression with the \<^verbatim>\<open>g\<close> flag: the search starts at
  \<^verbatim>\<open>lastIndex\<close>; a match leaves \<^verbatim>\<open>lastIndex\<close> at its end, a failure resets it to 0.
  The result is the match with its index, and the new \<^verbatim>\<open>lastIndex\<close>.
\<close>

definition execGlobal ::
  "(string \<Rightarrow> TimeMatch option) \<Rightarrow> nat \<Rightarrow> string \<Rightarrow> (nat \<times> TimeMatch) option \<times> nat" where
  "execGlobal m lastIndex s =
     (if length s < lastIndex then (None, 0)
      else
        (case searchFrom m lastIndex (drop lastIndex s) of
           None \<Rightarrow> (None, 0)
         | Some (i, r) \<Rightarrow> (Some (i, r), i + length (whole r))))"

text \<open>\<^verbatim>\<open>regex.test(s)\<close> and \<^verbatim>\<open>s.match(regex)\<close> without the flag search from the start.\<close>

definition regexTest :: "(string \<Rightarrow> 'a option) \<Rightarrow> string \<Rightarrow> bool" where
  "regexTest m s = (searchFrom m 0 s \<noteq> None)"

text \<open>\<^verbatim>\<open>^\[([a-zA-Z0-9-]+):(.*)\]$\<close>: the key and the value.\<close>

definition isKeyChar :: "char \<Rightarrow> bool" where
  "isKeyChar c = (isLetter c \<or> isDigit c \<or> c = CHR ''-'')"

definition metaRegex :: "string \<Rightarrow> (string \<times> string) option" where
  "metaRegex s =
     (case s of
        [] \<Rightarrow> None
      | x # r \<Rightarrow>
          if x \<noteq> CHR ''['' then None
          else
            (let key = takeWhile isKeyChar r; r1 = dropWhile isKeyChar r
             in if key = [] then None
                else
                  (case r1 of
                     [] \<Rightarrow> None
                   | y # r2 \<Rightarrow>
                       if y = CHR '':'' \<and> r2 \<noteq> [] \<and> last r2 = CHR '']''
                          \<and> \<not> list_ex isLineTerminator (butlast r2)
                       then Some (key, butlast r2)
                       else None)))"

text \<open>\<^verbatim>\<open>^([A-Za-z0-9\s]+):\s+(.*)\<close>: the name and the remainder.\<close>

definition isVoiceChar :: "char \<Rightarrow> bool" where
  "isVoiceChar c = (isLetter c \<or> isDigit c \<or> isWhiteSpace c)"

definition voiceRegex :: "string \<Rightarrow> (string \<times> string) option" where
  "voiceRegex s =
     (let name = takeWhile isVoiceChar s; r = dropWhile isVoiceChar s
      in if name = [] then None
         else
           (case r of
              [] \<Rightarrow> None
            | c # r1 \<Rightarrow>
                if c \<noteq> CHR '':'' \<or> takeWhile isWhiteSpace r1 = [] then None
                else Some (name, takeWhile (\<lambda>c. \<not> isLineTerminator c) (dropWhile isWhiteSpace r1))))"

text \<open>\<^verbatim>\<open><(\d{1,2}):(\d{1,2})\<close>, of which only the test is used.\<close>

definition wordTimingRegex :: "string \<Rightarrow> unit option" where
  "wordTimingRegex s =
     (case s of
        [] \<Rightarrow> None
      | x # r \<Rightarrow>
          if x \<noteq> CHR ''<'' then None
          else
            (case takeDigits 2 r of
               None \<Rightarrow> None
             | Some (g1, r1) \<Rightarrow>
                 (case r1 of
                    [] \<Rightarrow> None
                  | y # r2 \<Rightarrow>
                      if y = CHR '':'' \<and> takeDigits 2 r2 \<noteq> None then Some () else None)))"

text \<open>\<^verbatim>\<open><[\d:.]+>\<close>: the matched text.\<close>

definition isTagChar :: "char \<Rightarrow> bool" where
  "isTagChar c = (isDigit c \<or> c = CHR '':'' \<or> c = CHR ''.'')"

definition separatorRegex :: "string \<Rightarrow> string option" where
  "separatorRegex s =
     (case s of
        [] \<Rightarrow> None
      | x # r \<Rightarrow>
          if x \<noteq> CHR ''<'' \<or> takeWhile isTagChar r = [] then None
          else
            (case dropWhile isTagChar r of
               [] \<Rightarrow> None
             | y # r1 \<Rightarrow>
                 if y = CHR ''>'' then Some (x # takeWhile isTagChar r @ [y]) else None))"

lemma separatorRegex_length: "separatorRegex s = Some sep \<Longrightarrow> 0 < length sep"
  by (auto simp: separatorRegex_def split: list.splits if_splits)

text \<open>
  \<^verbatim>\<open>s.split(/(<[\d:.]+>)/)\<close>: the separator has a capturing group, so the matched
  separators are pieces of the result, between the texts they separate. The
  first argument is the text collected since the last separator.
\<close>

function splitTags :: "string \<Rightarrow> string \<Rightarrow> string list" where
  "splitTags acc [] = [acc]"
| "splitTags acc (c # cs) =
     (case separatorRegex (c # cs) of
        Some sep \<Rightarrow> acc # sep # splitTags [] (drop (length sep) (c # cs))
      | None \<Rightarrow> splitTags (acc @ [c]) cs)"
  by pat_completeness auto
termination
  by (relation "measure (\<lambda>(acc, s). length s)") (auto dest: separatorRegex_length)

text \<open>\<^verbatim>\<open>s.split(/\s+/)\<close>: a run of white space is one separator.\<close>

function splitWhitespace :: "string \<Rightarrow> string \<Rightarrow> string list" where
  "splitWhitespace acc [] = [acc]"
| "splitWhitespace acc (c # cs) =
     (if isWhiteSpace c then acc # splitWhitespace [] (dropWhile isWhiteSpace cs)
      else splitWhitespace (acc @ [c]) cs)"
  by pat_completeness auto
termination
  by (relation "measure (\<lambda>(acc, s). length s)") (auto simp: length_dropWhile_le less_Suc_eq_le)

text \<open>\<^verbatim>\<open>text.split(/\r?\n/)\<close>\<close>

fun splitLines :: "string \<Rightarrow> string \<Rightarrow> string list" where
  "splitLines acc [] = [acc]"
| "splitLines acc [c] = (if c = CHR 0x0A then [acc, []] else [acc @ [c]])"
| "splitLines acc (c # d # cs) =
     (if c = CHR 0x0A then acc # splitLines [] (d # cs)
      else if c = CHR 0x0D \<and> d = CHR 0x0A then acc # splitLines [] cs
      else splitLines (acc @ [c]) (d # cs))"

section \<open>parseLRC\<close>

text \<open>
  \<^verbatim>\<open>generateId\<close> draws on \<^verbatim>\<open>Math.random\<close>. The parsers take the identifiers as a
  parameter \<open>ids\<close>, the \<open>k\<close>-th call of \<^verbatim>\<open>generateId\<close> returning \<open>ids k\<close>, and count
  the calls.
\<close>

text \<open>The time of a line timestamp (the two branches on \<^verbatim>\<open>result[3]\<close>).\<close>

definition lineTimeOf :: "TimeMatch \<Rightarrow> number" where
  "lineTimeOf r =
     (case group3 r of
        Some g3 \<Rightarrow>
          (let h = parseInt (group1 r); m = parseInt (group2 r); s = parseInt g3;
               msVal = strOr (group4 r) ''0'';
               ms = parseFloat (''0.'' @ msVal)
           in js_add (js_add (js_add (js_mul h (Fin 3600)) (js_mul m (Fin 60))) s) ms)
      | None \<Rightarrow>
          (let m = parseInt (group1 r); s = parseInt (group2 r);
               msVal = strOr (group4 r) ''0'';
               ms = parseFloat (''0.'' @ msVal)
           in js_add (js_add (js_mul m (Fin 60)) s) ms))"

text \<open>The time of a word tag.\<close>

definition tagTimeOf :: "TimeMatch \<Rightarrow> number" where
  "tagTimeOf r =
     (case group3 r of
        Some g3 \<Rightarrow>
          (let h = parseInt (group1 r); m = parseInt (group2 r); s = parseInt g3;
               ms = (if strTruthy (group4 r) then parseFloat (''0.'' @ the (group4 r)) else Fin 0)
           in js_add (js_add (js_add (js_mul h (Fin 3600)) (js_mul m (Fin 60))) s) ms)
      | None \<Rightarrow>
          (let m = parseInt (group1 r); s = parseInt (group2 r);
               ms = (if strTruthy (group4 r) then parseFloat (''0.'' @ the (group4 r)) else Fin 0)
           in js_add (js_add (js_mul m (Fin 60)) s) ms))"

lemma takeDigits_rest: "takeDigits n s = Some (ds, r) \<Longrightarrow> length r < length s"
proof -
  assume a: "takeDigits n s = Some (ds, r)"
  then have d: "ds = takeWhile isDigit (take n s)" and "ds \<noteq> []" and r: "r = drop (length ds) s"
    by (auto simp: takeDigits_def Let_def split: if_splits)
  have "length (takeWhile isDigit (take n s)) \<le> length (take n s)"
    by (rule length_takeWhile_le)
  with d have 2: "length ds \<le> length s"
    by simp
  from \<open>ds \<noteq> []\<close> have 1: "0 < length ds"
    by simp
  from r have 3: "length r = length s - length ds"
    by simp
  from 1 2 3 show ?thesis
    by linarith
qed

lemma optGroup_rest: "optGroup c n s = (g, r) \<Longrightarrow> length r \<le> length s"
  by (auto simp: optGroup_def split: list.splits if_splits option.splits
      dest!: takeDigits_rest)

lemma matchTime_whole:
  assumes "matchTime opn cls s = Some r"
  shows "s \<noteq> []" and "whole r \<noteq> []"
proof -
  from assms obtain x t g1 r1 y r2 g2 r3 g3 r4 g4 z r6 where s: "s = x # t"
    and 1: "takeDigits 2 t = Some (g1, r1)" and r1: "r1 = y # r2"
    and 2: "takeDigits 2 r2 = Some (g2, r3)"
    and 3: "optGroup CHR '':'' 2 r3 = (g3, r4)"
    and 4: "optGroup CHR ''.'' 3 r4 = (g4, z # r6)"
    and w: "whole r = take (length s - length r6) s"
    by (auto simp: matchTime_def Let_def split: list.splits if_splits option.splits prod.splits)
  from s show "s \<noteq> []"
    by simp
  from takeDigits_rest [OF 1] takeDigits_rest [OF 2] optGroup_rest [OF 3] optGroup_rest [OF 4] r1 s
  have "length r6 < length s"
    by simp
  with w s show "whole r \<noteq> []"
    by simp
qed

lemma searchFrom_index: "searchFrom m i s = Some (j, x) \<Longrightarrow> i \<le> j"
  by (induction m i s rule: searchFrom.induct) (auto split: option.splits)

lemma execGlobal_shrinks:
  assumes "execGlobal lineTimeRegex lastIndex content = (Some (0, r), li)"
  shows "length (trim (drop (length (whole r)) content)) < length content"
proof -
  from assms have f: "searchFrom lineTimeRegex lastIndex (drop lastIndex content) = Some (0, r)"
    by (auto simp: execGlobal_def split: if_splits option.splits)
  from searchFrom_index [OF f] have z: "lastIndex = 0"
    by simp
  have "lineTimeRegex content = Some r"
  proof (cases content)
    case Nil
    with f z show ?thesis
      by (simp split: option.splits)
  next
    case (Cons c cs)
    with f z show ?thesis
      by (auto split: option.splits dest: searchFrom_index)
  qed
  then have "content \<noteq> []" and "whole r \<noteq> []"
    unfolding lineTimeRegex_def by (rule matchTime_whole)+
  then have "length (drop (length (whole r)) content) < length content"
    by simp
  moreover have "length (trim s) \<le> length s" for s
  proof -
    have "length (trim s) \<le> length (trimStart s)"
      by (simp add: trim_def trimEnd_def) (metis length_dropWhile_le length_rev)
    also have "\<dots> \<le> length s"
      by (simp add: trimStart_def length_dropWhile_le)
    finally show ?thesis .
  qed
  ultimately show ?thesis
    by (meson le_less_trans)
qed

text \<open>
  The loop that strips the leading timestamps of a line. \<^verbatim>\<open>lineTimeRegex\<close> is one
  object for the whole parse: a match at index 0 is consumed and \<^verbatim>\<open>lastIndex\<close> reset
  by hand; a match further right ends the loop and leaves \<^verbatim>\<open>lastIndex\<close> at the end
  of that match; no match ends the loop with \<^verbatim>\<open>lastIndex\<close> 0. The result is the
  timestamps, the remaining content and \<^verbatim>\<open>lastIndex\<close>.
\<close>

function extractTimestamps :: "nat \<Rightarrow> string \<Rightarrow> number list \<Rightarrow> number list \<times> string \<times> nat" where
  "extractTimestamps lastIndex content timestamps =
     (case execGlobal lineTimeRegex lastIndex content of
        (Some (index, result), li) \<Rightarrow>
          if index = 0
          then extractTimestamps 0 (trim (drop (length (whole result)) content))
                 (timestamps @ [lineTimeOf result])
          else (timestamps, content, li)
      | (None, li) \<Rightarrow> (timestamps, content, li))"
  by pat_completeness auto
termination
  by (relation "measure (\<lambda>(lastIndex, content, timestamps). length content)")
     (auto dest: execGlobal_shrinks [OF sym])

declare extractTimestamps.simps [simp del]

text \<open>One part of a word-timed line: a tag sets the current word time, any other
  text is a word at that time.\<close>

definition timedPart ::
  "(nat \<Rightarrow> string) \<Rightarrow> string \<Rightarrow> TimedWord list \<times> number \<times> nat \<Rightarrow> TimedWord list \<times> number \<times> nat" where
  "timedPart ids part st =
     (case st of
        (ws, currentWordTime, n) \<Rightarrow>
          (case searchFrom tagRegex 0 part of
             Some (i, tagMatch) \<Rightarrow> (ws, tagTimeOf tagMatch, n)
           | None \<Rightarrow>
               (let wText = trim part
                in if wText \<noteq> []
                   then (ws @ [\<lparr>word_id = ids n, word_text = wText, word_startTime = currentWordTime,
                                 word_endTime = None, word_isBackground = None\<rparr>],
                         currentWordTime, n + 1)
                   else (ws, currentWordTime, n))))"

definition plainWord :: "(nat \<Rightarrow> string) \<Rightarrow> number \<Rightarrow> string \<Rightarrow> TimedWord list \<times> nat \<Rightarrow> TimedWord list \<times> nat" where
  "plainWord ids lineStart w st =
     (case st of
        (ws, n) \<Rightarrow>
          (ws @ [\<lparr>word_id = ids n, word_text = w, word_startTime = lineStart,
                   word_endTime = None, word_isBackground = None\<rparr>], n + 1))"

text \<open>The body of \<^verbatim>\<open>timestamps.forEach\<close>: the words of the line, then the line.\<close>

definition pushLine ::
  "(nat \<Rightarrow> string) \<Rightarrow> string \<Rightarrow> string \<Rightarrow> bool \<Rightarrow> bool \<Rightarrow> number
     \<Rightarrow> TimedLine list \<times> nat \<Rightarrow> TimedLine list \<times> nat" where
  "pushLine ids content voiceName isBg hasWordTimings lineStart st =
     (case st of
        (ls, n) \<Rightarrow>
          (let (ws, n1) =
                 (if hasWordTimings
                  then (let parts = filter (\<lambda>p. trim p \<noteq> []) (splitTags [] content);
                            (ws, cur, n') = fold (timedPart ids) parts ([], lineStart, n)
                        in (ws, n'))
                  else (let plainWords = filter (\<lambda>w. w \<noteq> []) (splitWhitespace [] content)
                        in fold (plainWord ids lineStart) plainWords ([], n)));
               rawTextClean = join '' '' (map word_text ws)
           in (ls @ [\<lparr>line_id = ids n1, startTime = lineStart, endTime = None, words = ws,
                       rawText = (if rawTextClean \<noteq> [] then rawTextClean else content),
                       voice = Some voiceName, isBackground = Some isBg, attributes = None\<rparr>],
               n1 + 1)))"

text \<open>The state of \<^verbatim>\<open>rawLines.forEach\<close>.\<close>

record LrcState =
  lrc_lines :: "TimedLine list"
  lrc_metadata :: Metadata
  lastIndex :: nat
  nextId :: nat

text \<open>\<^verbatim>\<open>metadata.custom[key] = val\<close>: a key that is present keeps its place.\<close>

fun setKey :: "string \<Rightarrow> string \<Rightarrow> (string \<times> string) list \<Rightarrow> (string \<times> string) list" where
  "setKey k v [] = [(k, v)]"
| "setKey k v ((k', v') # kvs) = (if k = k' then (k, v) # kvs else (k', v') # setKey k v kvs)"

definition setMetadata :: "string \<Rightarrow> string \<Rightarrow> Metadata \<Rightarrow> Metadata" where
  "setMetadata key val m =
     (if key = ''ti'' then m\<lparr>title := Some val\<rparr>
      else if key = ''ar'' then m\<lparr>artist := Some val\<rparr>
      else if key = ''al'' then m\<lparr>album := Some val\<rparr>
      else if key = ''au'' then m\<lparr>author := Some val\<rparr>
      else if key = ''by'' then m\<lparr>createdBy := Some val\<rparr>
      else if key = ''re'' then m\<lparr>creator := Some val\<rparr>
      else if key = ''ve'' then m\<lparr>version := Some val\<rparr>
      else if key = ''offset'' then m\<lparr>offset := Some (parseInt val)\<rparr>
      else if key = ''la'' then m\<lparr>language := Some val\<rparr>
      else m\<lparr>custom := Some (setKey key val (case custom m of Some kvs \<Rightarrow> kvs | None \<Rightarrow> []))\<rparr>)"

text \<open>Steps 2 and on of the loop body: the timestamps, then one line for each.\<close>

definition timedLines :: "(nat \<Rightarrow> string) \<Rightarrow> string \<Rightarrow> LrcState \<Rightarrow> LrcState" where
  "timedLines ids content0 st =
     (let (timestamps, content1, li) = extractTimestamps (lastIndex st) content0 []
      in if timestamps \<noteq> [] then
           (let isBg = (startsWith content1 ''('' \<and> endsWith content1 '')'');
                voiceMatch = voiceRegex content1;
                voiceName = (case voiceMatch of Some (name, remainder) \<Rightarrow> trim name | None \<Rightarrow> ''v1'');
                content = (case voiceMatch of Some (name, remainder) \<Rightarrow> trim remainder | None \<Rightarrow> content1);
                hasWordTimings = regexTest wordTimingRegex content;
                (ls, n) = fold (pushLine ids content voiceName isBg hasWordTimings) timestamps
                            (lrc_lines st, nextId st)
            in st\<lparr>lrc_lines := ls, lastIndex := li, nextId := n\<rparr>)
         else st\<lparr>lastIndex := li\<rparr>)"

definition processLine :: "(nat \<Rightarrow> string) \<Rightarrow> string \<Rightarrow> LrcState \<Rightarrow> LrcState" where
  "processLine ids rawLine st =
     (let content = trim rawLine
      in if content = [] then st
         else
           (case metaRegex content of
              Some (k, v) \<Rightarrow>
                (let key = trim (toLowerCase k); val = trim v
                 in if \<not> (key \<noteq> [] \<and> isDigit (hd key))
                    then st\<lparr>lrc_metadata := setMetadata key val (lrc_metadata st)\<rparr>
                    else timedLines ids content st)
            | None \<Rightarrow> timedLines ids content st))"

subsection \<open>Sorting\<close>

text \<open>
  \<^verbatim>\<open>lines.sort(compare)\<close>. The language asks for a stable sort and leaves the order
  open only when the comparison is inconsistent; a comparison that returns NaN
  counts as 0. The model is the stable insertion sort: an element goes in front
  of the first one it does not compare greater than.
\<close>

definition byStartTime :: "TimedLine \<Rightarrow> TimedLine \<Rightarrow> number" where
  "byStartTime a b = js_sub (startTime a) (startTime b)"

fun insertSorted :: "('a \<Rightarrow> 'a \<Rightarrow> number) \<Rightarrow> 'a \<Rightarrow> 'a list \<Rightarrow> 'a list" where
  "insertSorted compare x [] = [x]"
| "insertSorted compare x (y # ys) =
     (if js_gt (compare x y) (Fin 0) then y # insertSorted compare x ys else x # y # ys)"

definition Array_sort :: "('a \<Rightarrow> 'a \<Rightarrow> number) \<Rightarrow> 'a list \<Rightarrow> 'a list" where
  "Array_sort compare xs = foldr (insertSorted compare) xs []"

subsection \<open>End times\<close>

text \<open>The inner loop over the words of line \<open>i\<close>, from index \<open>j\<close> on; \<open>lineEnd\<close> is the
  end time the line has just been given.\<close>

function inferWordEnds :: "nat \<Rightarrow> number option \<Rightarrow> TimedWord list \<Rightarrow> TimedWord list" where
  "inferWordEnds j lineEnd lineWords =
     (if j < length lineWords
      then inferWordEnds (j + 1) lineEnd
             (lineWords[j := (lineWords ! j)
                \<lparr>word_endTime := (if j < length lineWords - 1
                                  then Some (word_startTime (lineWords ! (j + 1)))
                                  else lineEnd)\<rparr>])
      else lineWords)"
  by pat_completeness auto
termination
  by (relation "measure (\<lambda>(j, lineEnd, lineWords). length lineWords - j)") auto

declare inferWordEnds.simps [simp del]

text \<open>The outer loop, from index \<open>i\<close> on.\<close>

function inferEndTimes :: "nat \<Rightarrow> TimedLine list \<Rightarrow> TimedLine list" where
  "inferEndTimes i ls =
     (if i < length ls
      then (let e = (if i < length ls - 1 then startTime (ls ! (i + 1))
                     else js_add (startTime (ls ! i)) (Fin 5));
                l = (ls ! i)\<lparr>endTime := Some e\<rparr>
            in inferEndTimes (i + 1) (ls[i := l\<lparr>words := inferWordEnds 0 (endTime l) (words l)\<rparr>]))
      else ls)"
  by pat_completeness auto
termination
  by (relation "measure (\<lambda>(i, ls). length ls - i)") auto

declare inferEndTimes.simps [simp del]

subsection \<open>The parser\<close>

definition lrcInitialMetadata :: Metadata where
  "lrcInitialMetadata = emptyMetadata\<lparr>title := Some '''', artist := Some '''', album := Some '''',
     offset := Some (Fin 0), custom := Some []\<rparr>"

text \<open>The lines in the order the loop pushes them, before the sort.\<close>

definition scanLRC :: "(nat \<Rightarrow> string) \<Rightarrow> string \<Rightarrow> LrcState" where
  "scanLRC ids txt =
     fold (processLine ids) (splitLines [] txt)
       \<lparr>lrc_lines = [], lrc_metadata = lrcInitialMetadata, lastIndex = 0, nextId = 0\<rparr>"

definition parseLRC :: "(nat \<Rightarrow> string) \<Rightarrow> string \<Rightarrow> LyricsDocument" where
  "parseLRC ids txt =
     (let st = scanLRC ids txt;
          sorted = Array_sort byStartTime (lrc_lines st);
          ls = inferEndTimes 0 sorted;
          m = lrc_metadata st;
          m' = (if strTruthy (author m) \<and> songwriters m = None
                then m\<lparr>songwriters := Some (splitNames (the (author m)))\<rparr> else m)
      in \<lparr>format = LRC, lines = ls, metadata = m'\<rparr>)"

definition parseELRC :: "(nat \<Rightarrow> string) \<Rightarrow> string \<Rightarrow> LyricsDocument" where
  "parseELRC ids txt = (parseLRC ids txt)\<lparr>format := ELRC\<rparr>"

subsection \<open>The loops of the end times in closed form\<close>

text \<open>What the inner loop leaves at index \<open>k\<close> of the words, what the outer loop
  gives line \<open>i\<close> as its end time, and what it leaves at index \<open>i\<close> of the lines.\<close>

definition wordEndAt :: "number option \<Rightarrow> TimedWord list \<Rightarrow> nat \<Rightarrow> TimedWord" where
  "wordEndAt lineEnd ws k =
     (ws ! k)\<lparr>word_endTime := (if k < length ws - 1 then Some (word_startTime (ws ! (k + 1)))
                                else lineEnd)\<rparr>"

definition lineEndAt :: "TimedLine list \<Rightarrow> nat \<Rightarrow> number" where
  "lineEndAt ls i =
     (if i < length ls - 1 then startTime (ls ! (i + 1)) else js_add (startTime (ls ! i)) (Fin 5))"

definition lineAt :: "TimedLine list \<Rightarrow> nat \<Rightarrow> TimedLine" where
  "lineAt ls i =
     (ls ! i)\<lparr>endTime := Some (lineEndAt ls i),
              words := map (wordEndAt (Some (lineEndAt ls i)) (words (ls ! i)))
                         [0..<length (words (ls ! i))]\<rparr>"

text \<open>An identifier supply for the examples.\<close>

definition exampleIds :: "nat \<Rightarrow> string" where
  "exampleIds k = ''id'' @ digitsOf k"

section \<open>The XML document\<close>

text \<open>
  \<^verbatim>\<open>DOMParser\<close> belongs to the browser. The model has the tree it returns: elements
  with their qualified name, local name, namespace, attributes and children, text
  nodes, CDATA sections, and the other nodes (comments, processing instructions),
  which carry no text. A document is its document element.
\<close>

record Attr =
  attr_name :: string
  attr_localName :: string
  attr_namespaceURI :: "string option"
  attr_value :: string

datatype Node =
  Element (tagName: string) (localName: string) (namespaceURI: "string option")
    (attrs: "Attr list") (childNodes: "Node list")
| TextNode string
| CDataNode string
| OtherNode

type_synonym XMLDocument = Node

fun isElement :: "Node \<Rightarrow> bool" where
  "isElement (Element t l n a c) = True"
| "isElement x = False"

text \<open>The descendants of a node in tree order, the node itself left out.\<close>

fun descendants :: "Node \<Rightarrow> Node list" where
  "descendants (Element t l n a cs) = concat (map (\<lambda>c. c # descendants c) cs)"
| "descendants x = []"

fun textContent :: "Node \<Rightarrow> string" where
  "textContent (Element t l n a cs) = concat (map textContent cs)"
| "textContent (TextNode s) = s"
| "textContent (CDataNode s) = s"
| "textContent OtherNode = []"

definition getElementsByTagName :: "Node \<Rightarrow> string \<Rightarrow> Node list" where
  "getElementsByTagName el name = filter (\<lambda>d. isElement d \<and> tagName d = name) (descendants el)"

definition getElementsByTagNameNS :: "Node \<Rightarrow> string \<Rightarrow> string \<Rightarrow> Node list" where
  "getElementsByTagNameNS el ns name =
     filter (\<lambda>d. isElement d \<and> namespaceURI d = Some ns \<and> localName d = name) (descendants el)"

text \<open>On the document the search includes the document element.\<close>

definition documentElementsByTagName :: "XMLDocument \<Rightarrow> string \<Rightarrow> Node list" where
  "documentElementsByTagName xmlDoc name =
     filter (\<lambda>d. isElement d \<and> tagName d = name) (xmlDoc # descendants xmlDoc)"

text \<open>\<^verbatim>\<open>list[0]\<close>, and \<^verbatim>\<open>a || b\<close> on what may be \<^verbatim>\<open>undefined\<close>.\<close>

definition first :: "'a list \<Rightarrow> 'a option" where
  "first xs = (case xs of [] \<Rightarrow> None | x # _ \<Rightarrow> Some x)"

definition orElse :: "'a option \<Rightarrow> 'a option \<Rightarrow> 'a option" where
  "orElse a b = (case a of Some x \<Rightarrow> Some x | None \<Rightarrow> b)"

text \<open>\<^verbatim>\<open>a || b\<close> on two results of \<^verbatim>\<open>getAttr\<close>: \<^verbatim>\<open>null\<close> and the empty string are false.\<close>

definition strOrElse :: "string option \<Rightarrow> string option \<Rightarrow> string option" where
  "strOrElse a b = (if strTruthy a then a else b)"

definition getAttribute :: "Node \<Rightarrow> string \<Rightarrow> string option" where
  "getAttribute el name = map_option attr_value (find (\<lambda>a. attr_name a = name) (attrs el))"

definition getAttributeNS :: "Node \<Rightarrow> string \<Rightarrow> string \<Rightarrow> string option" where
  "getAttributeNS el ns name =
     map_option attr_value
       (find (\<lambda>a. attr_namespaceURI a = Some ns \<and> attr_localName a = name) (attrs el))"

section \<open>parseTTML\<close>

definition ns_ttm :: string where
  "ns_ttm = ''http://www.w3.org/ns/ttml#metadata''"

definition ns_itunes :: string where
  "ns_itunes = ''http://music.apple.com/lyric-ttml-internal''"

text \<open>The helper \<^verbatim>\<open>getAttr\<close>: by namespace, by name, then by the part after the
  prefix.\<close>

definition getAttr :: "Node \<Rightarrow> string \<Rightarrow> string option \<Rightarrow> string option" where
  "getAttr el name nsUrl =
     (if strTruthy nsUrl \<and> getAttributeNS el (the nsUrl) name \<noteq> None
      then getAttributeNS el (the nsUrl) name
      else if getAttribute el name \<noteq> None then getAttribute el name
      else
        (let parts = splitChar CHR '':'' name
         in if 1 < length parts
            then map_option attr_value
                   (find (\<lambda>a. attr_name a = name \<or> attr_localName a = parts ! 1) (attrs el))
            else None))"

text \<open>The time parser of the body; \<^verbatim>\<open>undefined\<close> is \<open>None\<close>.\<close>

definition parseTime :: "string option \<Rightarrow> number option" where
  "parseTime t =
     (if \<not> strTruthy t then None
      else
        (let s = the t
         in if CHR '':'' \<in> set s then Some (parseTimestamp s)
            else if endsWith s ''ms'' then Some (js_div (parseFloat s) (Fin 1000))
            else if endsWith s ''s'' then Some (parseFloat s)
            else (let parsed = parseFloat s in if isNaN parsed then None else Some parsed)))"

text \<open>\<^verbatim>\<open>parseTime(pBegin) || 0\<close>\<close>

definition orZero :: "number option \<Rightarrow> number" where
  "orZero t = (case t of Some x \<Rightarrow> if truthy x then x else Fin 0 | None \<Rightarrow> Fin 0)"

text \<open>The agents of the head: \<^verbatim>\<open>agentMap.set\<close> in the order of the document; a later
  entry for the same id replaces the earlier one.\<close>

definition agentEntry :: "Node \<Rightarrow> (string \<times> string) list \<Rightarrow> (string \<times> string) list" where
  "agentEntry agent agentMap =
     (let ident = getAttribute agent ''xml:id'';
          nameTag = orElse (first (getElementsByTagNameNS agent ns_ttm ''name''))
                      (first (getElementsByTagName agent ''ttm:name''))
      in if strTruthy ident
         then (case nameTag of
                 Some n \<Rightarrow> if textContent n \<noteq> [] then setKey (the ident) (textContent n) agentMap
                           else setKey (the ident) (the ident) agentMap
               | None \<Rightarrow> setKey (the ident) (the ident) agentMap)
         else agentMap)"

definition getMeta :: "Node \<Rightarrow> string \<Rightarrow> string option" where
  "getMeta head name =
     (case first (getElementsByTagNameNS head ns_ttm name) of
        Some t1 \<Rightarrow> Some (textContent t1)
      | None \<Rightarrow>
          (case first (getElementsByTagName head (''ttm:'' @ name)) of
             Some t2 \<Rightarrow> Some (textContent t2)
           | None \<Rightarrow>
               (case first (getElementsByTagName head name) of
                  Some t3 \<Rightarrow> Some (textContent t3)
                | None \<Rightarrow> None)))"

definition ttmlInitialMetadata :: Metadata where
  "ttmlInitialMetadata = emptyMetadata\<lparr>title := Some '''', artist := Some '''', album := Some '''',
     songwriters := Some [], custom := Some []\<rparr>"

text \<open>The metadata block: the metadata and the agent map. Without a head both stay
  as they start.\<close>

definition parseHead :: "XMLDocument \<Rightarrow> Metadata \<times> (string \<times> string) list" where
  "parseHead xmlDoc =
     (case first (documentElementsByTagName xmlDoc ''head'') of
        None \<Rightarrow> (ttmlInitialMetadata, [])
      | Some head \<Rightarrow>
          (let lang = getAttribute xmlDoc ''xml:lang'';
               m1 = (if strTruthy lang then ttmlInitialMetadata\<lparr>language := lang\<rparr>
                     else ttmlInitialMetadata);
               agents = getElementsByTagNameNS head ns_ttm ''agent'';
               allAgents = (if 0 < length agents then agents
                            else getElementsByTagName head ''ttm:agent'');
               agentMap = fold agentEntry allAgents [];
               titleText = getMeta head ''title'';
               m2 = (if strTruthy titleText then m1\<lparr>title := titleText\<rparr> else m1);
               artistText = getMeta head ''artist'';
               m3 = (if strTruthy artistText then m2\<lparr>artist := artistText\<rparr> else m2);
               itunesMeta =
                 orElse (first (getElementsByTagName head ''iTunesMetadata''))
                   (orElse (first (getElementsByTagNameNS head ns_itunes ''iTunesMetadata''))
                      (first (getElementsByTagName head ''itunes:iTunesMetadata'')));
               m4 = (case itunesMeta of
                       None \<Rightarrow> m3
                     | Some im \<Rightarrow>
                         (case orElse (first (getElementsByTagName im ''songwriters''))
                                 (first (getElementsByTagNameNS im ns_itunes ''songwriters'')) of
                            None \<Rightarrow> m3
                          | Some swContainer \<Rightarrow>
                              m3\<lparr>songwriters :=
                                   Some (filter (\<lambda>s. s \<noteq> [])
                                     (map textContent (getElementsByTagName swContainer ''songwriter'')))\<rparr>))
           in (m4, agentMap)))"

text \<open>
  The loop that hands the end time of a span to the words it closes: from the
  last word down, while the word starts at or after the span and has no end time
  yet. \<open>backfill k\<close> looks at the words below index \<open>k\<close>.
\<close>

fun backfill :: "nat \<Rightarrow> number \<Rightarrow> number \<Rightarrow> TimedWord list \<Rightarrow> TimedWord list" where
  "backfill 0 e effectiveStart ws = ws"
| "backfill (Suc i) e effectiveStart ws =
     (if js_ge (word_startTime (ws ! i)) effectiveStart \<and> word_endTime (ws ! i) = None
      then backfill i e effectiveStart (ws[i := (ws ! i)\<lparr>word_endTime := Some e\<rparr>])
      else ws)"

text \<open>The recursive traversal; the state is the words so far and the count of
  identifiers drawn.\<close>

fun traverse ::
  "(nat \<Rightarrow> string) \<Rightarrow> Node \<Rightarrow> bool \<Rightarrow> number \<Rightarrow> TimedWord list \<times> nat \<Rightarrow> TimedWord list \<times> nat" where
  "traverse ids (TextNode s) currentBg currentStartTime st =
     (case st of
        (ws, n) \<Rightarrow>
          (let t = trim s
           in if t \<noteq> []
              then (ws @ [\<lparr>word_id = ids n, word_text = t, word_startTime = currentStartTime,
                            word_endTime = None, word_isBackground = Some currentBg\<rparr>], n + 1)
              else (ws, n)))"
| "traverse ids (Element tg lname nsu ats cs) currentBg currentStartTime st =
     (if toLowerCase tg = ''br'' then st
      else
        (let el = Element tg lname nsu ats cs;
             beginAttr = getAttr el ''begin'' None;
             endAttr = getAttr el ''end'' None;
             role = strOrElse (getAttr el ''role'' (Some ns_ttm)) (getAttr el ''ttm:role'' None);
             startT = parseTime beginAttr;
             endT = parseTime endAttr;
             isBg = (currentBg \<or> role = Some ''x-bg'');
             effectiveStart = (case startT of Some t \<Rightarrow> t | None \<Rightarrow> currentStartTime);
             st1 = fold (\<lambda>child. traverse ids child isBg effectiveStart) cs st
         in case endT of
              Some e \<Rightarrow> (backfill (length (fst st1)) e effectiveStart (fst st1), snd st1)
            | None \<Rightarrow> st1))"
| "traverse ids (CDataNode s) currentBg currentStartTime st = st"
| "traverse ids OtherNode currentBg currentStartTime st = st"

text \<open>The body of the loop over the \<^verbatim>\<open>p\<close> elements.\<close>

definition ttmlLine ::
  "(nat \<Rightarrow> string) \<Rightarrow> (string \<times> string) list \<Rightarrow> Node \<Rightarrow> TimedLine list \<times> nat \<Rightarrow> TimedLine list \<times> nat" where
  "ttmlLine ids agentMap p st =
     (case st of
        (ls, n) \<Rightarrow>
          (let pBegin = getAttr p ''begin'' None;
               pEnd = getAttr p ''end'' None;
               pStart = orZero (parseTime pBegin);
               pEndTime = parseTime pEnd;
               voiceId = strOrElse (getAttr p ''agent'' (Some ns_ttm))
                           (strOrElse (getAttr p ''ttm:agent'' None)
                              (strOrElse (getAttr p ''role'' (Some ns_ttm)) (getAttr p ''ttm:role'' None)));
               voiceName = (if strTruthy voiceId
                            then Some (strOr (map_of agentMap (the voiceId)) (the voiceId))
                            else None);
               attributeBag =
                 fold (\<lambda>a bag. if startsWith (attr_name a) ''itunes:'' \<or> attr_name a = ''key''
                                then setKey (attr_name a) (attr_value a) bag else bag)
                   (attrs p) [];
               pRole = strOrElse (getAttr p ''role'' (Some ns_ttm)) (getAttr p ''ttm:role'' None);
               isLineBg = (pRole = Some ''x-bg''
                           \<or> (case getAttribute p ''style'' of Some s \<Rightarrow> includesStr s ''bg'' | None \<Rightarrow> False)
                           \<or> startsWith (trim (textContent p)) ''('');
               (ws, n1) = fold (\<lambda>child. traverse ids child isLineBg pStart) (childNodes p) ([], n);
               rawTextJoined = join '' '' (map word_text ws)
           in if 0 < length ws \<or> rawTextJoined \<noteq> []
              then (ls @ [\<lparr>line_id = ids n1, startTime = pStart, endTime = pEndTime, words = ws,
                            rawText = rawTextJoined, voice = voiceName, isBackground = Some isLineBg,
                            attributes = Some attributeBag\<rparr>], n1 + 1)
              else (ls, n1)))"

text \<open>The lines of a body in the order the loops push them, before the sort.\<close>

definition scanBody :: "(nat \<Rightarrow> string) \<Rightarrow> (string \<times> string) list \<Rightarrow> Node \<Rightarrow> TimedLine list" where
  "scanBody ids agentMap body =
     (let divs = getElementsByTagName body ''div'';
          containers = (if 0 < length divs then divs else [body])
      in fst (fold (\<lambda>container. fold (ttmlLine ids agentMap) (getElementsByTagName container ''p''))
                containers ([], 0)))"

text \<open>parseTTML on the document the XML parser returned.\<close>

definition parseTTMLDocument :: "(nat \<Rightarrow> string) \<Rightarrow> XMLDocument \<Rightarrow> LyricsDocument" where
  "parseTTMLDocument ids xmlDoc =
     (let (m, agentMap) = parseHead xmlDoc
      in case first (documentElementsByTagName xmlDoc ''body'') of
           None \<Rightarrow> \<lparr>format = TTML, lines = [], metadata = m\<rparr>
         | Some body \<Rightarrow>
             \<lparr>format = TTML, lines = Array_sort byStartTime (scanBody ids agentMap body),
              metadata = m\<rparr>)"

text \<open>parseTTML; \<open>parseFromString\<close> is what \<^verbatim>\<open>new DOMParser().parseFromString(text,
  "text/xml")\<close> returns, a parser error document included.\<close>

definition parseTTML :: "(string \<Rightarrow> XMLDocument) \<Rightarrow> (nat \<Rightarrow> string) \<Rightarrow> string \<Rightarrow> LyricsDocument" where
  "parseTTML parseFromString ids txt = parseTTMLDocument ids (parseFromString txt)"

section \<open>detectFormat and parseLyrics\<close>

text \<open>\<^verbatim>\<open>[0-9]{2}\<close>: exactly two digits; the rest.\<close>

definition takeTwoDigits :: "string \<Rightarrow> string option" where
  "takeTwoDigits s =
     (case s of
        a # b # r \<Rightarrow> if isDigit a \<and> isDigit b then Some r else None
      | _ \<Rightarrow> None)"

text \<open>\<^verbatim>\<open><[0-9]{1,2}:[0-9]{2}(?:\.[0-9]{1,3})?>\<close>\<close>

definition elrcRegex :: "string \<Rightarrow> unit option" where
  "elrcRegex s =
     (case s of
        [] \<Rightarrow> None
      | x # r \<Rightarrow>
          if x \<noteq> CHR ''<'' then None
          else
            (case takeDigits 2 r of
               None \<Rightarrow> None
             | Some (g1, r1) \<Rightarrow>
                 (case r1 of
                    [] \<Rightarrow> None
                  | y # r2 \<Rightarrow>
                      if y \<noteq> CHR '':'' then None
                      else
                        (case takeTwoDigits r2 of
                           None \<Rightarrow> None
                         | Some r3 \<Rightarrow>
                             (case snd (optGroup CHR ''.'' 3 r3) of
                                [] \<Rightarrow> None
                              | z # r4 \<Rightarrow> if z = CHR ''>'' then Some () else None)))))"

text \<open>\<^verbatim>\<open>\[[0-9]{1,3}:[0-9]{2}\<close>\<close>

definition lrcRegex :: "string \<Rightarrow> unit option" where
  "lrcRegex s =
     (case s of
        [] \<Rightarrow> None
      | x # r \<Rightarrow>
          if x \<noteq> CHR ''['' then None
          else
            (case takeDigits 3 r of
               None \<Rightarrow> None
             | Some (g1, r1) \<Rightarrow>
                 (case r1 of
                    [] \<Rightarrow> None
                  | y # r2 \<Rightarrow> if y = CHR '':'' \<and> takeTwoDigits r2 \<noteq> None then Some () else None)))"

definition detectFormat :: "string \<Rightarrow> LyricsFormat" where
  "detectFormat txt =
     (if includesStr txt ''<tt'' \<or> includesStr txt (''xmlns='' @ dq @ ''http://www.w3.org/ns/ttml'' @ dq)
      then TTML
      else if regexTest elrcRegex txt then ELRC
      else if regexTest lrcRegex txt then LRC
      else PLAIN)"

text \<open>One line of plain text: the identifier of the line is drawn before those of
  its words. A plain line has no end time, background flag or attribute bag.\<close>

definition plainLine :: "(nat \<Rightarrow> string) \<Rightarrow> string \<Rightarrow> TimedLine list \<times> nat \<Rightarrow> TimedLine list \<times> nat" where
  "plainLine ids l st =
     (case st of
        (ls, n) \<Rightarrow>
          (let (ws, n1) = fold (plainWord ids (Fin 0)) (splitWhitespace [] (trim l)) ([], n + 1)
           in (ls @ [\<lparr>line_id = ids n, startTime = Fin 0, endTime = None, words = ws,
                       rawText = trim l, voice = Some ''v1'', isBackground = None,
                       attributes = None\<rparr>], n1)))"

definition parsePlain :: "(nat \<Rightarrow> string) \<Rightarrow> string \<Rightarrow> LyricsDocument" where
  "parsePlain ids txt =
     \<lparr>format = PLAIN,
      lines = fst (fold (plainLine ids) (filter (\<lambda>l. trim l \<noteq> []) (splitLines [] txt)) ([], 0)),
      metadata = emptyMetadata\<lparr>title := Some '''', artist := Some '''', album := Some '''',
                   custom := Some []\<rparr>\<rparr>"

text \<open>\<^verbatim>\<open>format || detectFormat(text)\<close>: every format is a non-empty string, so a format
  that is given is taken.\<close>

definition parseLyrics ::
  "(string \<Rightarrow> XMLDocument) \<Rightarrow> (nat \<Rightarrow> string) \<Rightarrow> string \<Rightarrow> LyricsFormat option \<Rightarrow> LyricsDocument" where
  "parseLyrics parseFromString ids txt fmt =
     (let detected = (case fmt of Some f \<Rightarrow> f | None \<Rightarrow> detectFormat txt)
      in case detected of
           LRC \<Rightarrow> parseLRC ids txt
         | ELRC \<Rightarrow> parseELRC ids txt
         | TTML \<Rightarrow> parseTTML parseFromString ids txt
         | PLAIN \<Rightarrow> parsePlain ids txt)"

subsection \<open>Notions used to state the order of the lines\<close>

text \<open>\<^verbatim>\<open>a <= b\<close> on numbers: false when either is NaN.\<close>

definition js_le :: "number \<Rightarrow> number \<Rightarrow> bool" where
  "js_le a b = js_ge b a"

text \<open>The lines as the parser meets them: the list each parser builds before it
  sorts. The plain parser does not sort.\<close>

definition encounterLines ::
  "(string \<Rightarrow> XMLDocument) \<Rightarrow> (nat \<Rightarrow> string) \<Rightarrow> string \<Rightarrow> LyricsFormat option \<Rightarrow> TimedLine list" where
  "encounterLines parseFromString ids txt fmt =
     (case (case fmt of Some f \<Rightarrow> f | None \<Rightarrow> detectFormat txt) of
        LRC \<Rightarrow> lrc_lines (scanLRC ids txt)
      | ELRC \<Rightarrow> lrc_lines (scanLRC ids txt)
      | TTML \<Rightarrow>
          (case first (documentElementsByTagName (parseFromString txt) ''body'') of
             None \<Rightarrow> []
           | Some body \<Rightarrow> scanBody ids (snd (parseHead (parseFromString txt))) body)
      | PLAIN \<Rightarrow> lines (parsePlain ids txt))"

text \<open>No line of a list starts at NaN.\<close>

definition startsKnown :: "TimedLine list \<Rightarrow> bool" where
  "startsKnown ls = (\<forall>l\<in>set ls. startTime l \<noteq> NaN)"

text \<open>A line without the end times, which the LRC parser sets after the sort.\<close>

definition withoutEnds :: "TimedLine \<Rightarrow> TimedLine" where
  "withoutEnds l = l\<lparr>endTime := None, words := map (\<lambda>w. w\<lparr>word_endTime := None\<rparr>) (words l)\<rparr>"

text \<open>A document for the examples: one agent, one line, one word.\<close>

definition exampleTTML :: XMLDocument where
  "exampleTTML =
     Element ''tt'' ''tt'' (Some ''http://www.w3.org/ns/ttml'')
       [\<lparr>attr_name = ''xml:lang'', attr_localName = ''lang'',
          attr_namespaceURI = Some ''http://www.w3.org/XML/1998/namespace'', attr_value = ''en''\<rparr>]
       [Element ''head'' ''head'' (Some ''http://www.w3.org/ns/ttml'') []
          [Element ''ttm:agent'' ''agent'' (Some ns_ttm)
             [\<lparr>attr_name = ''xml:id'', attr_localName = ''id'',
                attr_namespaceURI = Some ''http://www.w3.org/XML/1998/namespace'', attr_value = ''v1''\<rparr>]
             [Element ''ttm:name'' ''name'' (Some ns_ttm) [] [TextNode ''Lead'']]],
        Element ''body'' ''body'' (Some ''http://www.w3.org/ns/ttml'') []
          [Element ''p'' ''p'' (Some ''http://www.w3.org/ns/ttml'')
             [\<lparr>attr_name = ''begin'', attr_localName = ''begin'', attr_namespaceURI = None,
                attr_value = ''00:01.000''\<rparr>,
              \<lparr>attr_name = ''end'', attr_localName = ''end'', attr_namespaceURI = None,
                attr_value = ''00:03.000''\<rparr>,
              \<lparr>attr_name = ''ttm:agent'', attr_localName = ''agent'', attr_namespaceURI = Some ns_ttm,
                attr_value = ''v1''\<rparr>]
             [Element ''span'' ''span'' (Some ''http://www.w3.org/ns/ttml'')
                [\<lparr>attr_name = ''begin'', attr_localName = ''begin'', attr_namespaceURI = None,
                   attr_value = ''00:01.000''\<rparr>]
                [TextNode ''Hello'']]]]"

text \<open>What a browser returns for text that is no XML: a document whose element
  reports the error.\<close>

definition parserErrorDocument :: XMLDocument where
  "parserErrorDocument =
     Element ''parsererror'' ''parsererror''
       (Some ''http://www.mozilla.org/newlayout/xml/parsererror.xml'') []
       [TextNode ''XML Parsing Error: syntax error'']"

text \<open>A document with one line that begins before zero:
  \<^verbatim>\<open><tt><body><p begin="-5s">x</p></body></tt>\<close>.\<close>

definition negativeTTML :: XMLDocument where
  "negativeTTML =
     Element ''tt'' ''tt'' (Some ''http://www.w3.org/ns/ttml'') []
       [Element ''body'' ''body'' (Some ''http://www.w3.org/ns/ttml'') []
          [Element ''p'' ''p'' (Some ''http://www.w3.org/ns/ttml'')
             [\<lparr>attr_name = ''begin'', attr_localName = ''begin'', attr_namespaceURI = None,
                attr_value = ''-5s''\<rparr>]
             [TextNode ''x'']]]"

section \<open>generateTTML\<close>

definition hasWordSync :: "LyricsDocument \<Rightarrow> bool" where
  "hasWordSync doc =
     list_ex (\<lambda>l. 1 < length (words l) \<and>
                  list_ex (\<lambda>w. js_gt (word_startTime w) (js_add (startTime l) (Fin 0.05))) (words l))
       (lines doc)"

definition timingMode :: "LyricsDocument \<Rightarrow> string" where
  "timingMode doc = (if hasWordSync doc then ''Word'' else ''Line'')"

text \<open>The template up to the value of \<^verbatim>\<open>itunes:timing\<close>. Three of its lines end in
  a space.\<close>

definition ttmlProlog :: string where
  "ttmlProlog =
     ''<?xml version='' @ dq @ ''1.0'' @ dq @ '' encoding='' @ dq @ ''UTF-8'' @ dq @ ''?>'' @ nl @
     ''<tt xmlns='' @ dq @ ''http://www.w3.org/ns/ttml'' @ dq @ '' '' @ nl @
     ''    xmlns:itunes='' @ dq @ ''http://music.apple.com/lyric-ttml-internal'' @ dq @ '' '' @ nl @
     ''    xmlns:ttm='' @ dq @ ''http://www.w3.org/ns/ttml#metadata'' @ dq @ '' '' @ nl @
     ''    xmlns:tts='' @ dq @ ''http://www.w3.org/ns/ttml#styling'' @ dq @ nl @
     ''    itunes:timing='' @ dq"

definition agentMapOf :: "string list \<Rightarrow> (string \<times> string) list" where
  "agentMapOf voices = map (\<lambda>i. (voices ! i, ''v'' @ nat_toString (i + 1))) [0..<length voices]"

text \<open>A value missing from a map prints as \<^verbatim>\<open>undefined\<close> in a template.\<close>

definition agentDecl :: "(string \<times> string) list \<Rightarrow> string \<Rightarrow> string" where
  "agentDecl agentMap v =
     nl @ ''      <ttm:agent type='' @ dq @ ''person'' @ dq @ '' xml:id='' @ dq
       @ (case map_of agentMap v of Some a \<Rightarrow> a | None \<Rightarrow> ''undefined'') @ dq @ ''>'' @ nl @
     ''        <ttm:name type='' @ dq @ ''full'' @ dq @ ''>'' @ v @ ''</ttm:name>'' @ nl @
     ''      </ttm:agent>''"

definition ttmlHead :: "LyricsDocument \<Rightarrow> string list \<Rightarrow> (string \<times> string) list \<Rightarrow> string" where
  "ttmlHead doc voices agentMap =
     (let m = metadata doc;
          songwriterNames = (case songwriters m of
                               Some ws \<Rightarrow> ws
                             | None \<Rightarrow> if strTruthy (author m) then splitNames (the (author m)) else [])
      in dq @ nl @
         ''    xml:lang='' @ dq @ strOr (language m) ''en'' @ dq @ ''>'' @ nl @
         ''  <head>'' @ nl @
         ''    <metadata>'' @ nl @
         ''      '' @ (if strTruthy (title m) then ''<title>'' @ the (title m) @ ''</title>'' else '''') @ nl @
         ''      '' @ (if strTruthy (artist m)
                       then ''<ttm:agent type='' @ dq @ ''person'' @ dq @ '' xml:id='' @ dq @ ''artist'' @ dq
                            @ ''><ttm:name type='' @ dq @ ''full'' @ dq @ ''>'' @ the (artist m)
                            @ ''</ttm:name></ttm:agent>''
                       else '''') @ nl @
         ''      '' @ concat (map (agentDecl agentMap) voices) @ nl @
         ''      <iTunesMetadata>'' @ nl @
         ''         <songwriters>'' @ nl @
         ''            '' @ join (nl @ ''            '')
                             (map (\<lambda>s. ''<songwriter>'' @ s @ ''</songwriter>'') songwriterNames) @ nl @
         ''         </songwriters>'' @ nl @
         ''      </iTunesMetadata>'' @ nl @
         ''    </metadata>'' @ nl @
         ''    <styling>'' @ nl @
         ''      <style xml:id='' @ dq @ ''default'' @ dq @ '' tts:color='' @ dq @ ''#FFFFFF'' @ dq
           @ '' tts:fontSize='' @ dq @ ''32px'' @ dq @ '' tts:fontFamily='' @ dq @ ''sans-serif'' @ dq
           @ '' />'' @ nl @
         ''    </styling>'' @ nl @
         ''    <layout>'' @ nl @
         ''      <region xml:id='' @ dq @ ''bottom'' @ dq @ '' tts:textAlign='' @ dq @ ''center'' @ dq
           @ '' tts:displayAlign='' @ dq @ ''after'' @ dq @ '' />'' @ nl @
         ''    </layout>'' @ nl @
         ''  </head>'' @ nl @
         ''  <body region='' @ dq @ ''bottom'' @ dq @ ''>'' @ nl @
         ''    <div itunes:songPart='' @ dq @ ''Verse'' @ dq @ ''>'' @ nl)"

definition spanOf :: "TimedWord \<Rightarrow> string" where
  "spanOf w =
     (let wStart = formatTimestamp (word_startTime w) 3;
          wEnd = (case word_endTime w of
                    Some e \<Rightarrow> if truthy e then formatTimestamp e 3
                              else formatTimestamp (js_add (word_startTime w) (Fin 0.5)) 3
                  | None \<Rightarrow> formatTimestamp (js_add (word_startTime w) (Fin 0.5)) 3);
          bgRole = (if word_isBackground w = Some True then '' ttm:role='' @ dq @ ''x-bg'' @ dq else '''')
      in ''        <span begin='' @ dq @ wStart @ dq @ '' end='' @ dq @ wEnd @ dq @ bgRole @ ''>''
           @ word_text w @ ''</span>'' @ nl)"

text \<open>\<^verbatim>\<open>doc.lines[i+1]?.startTime || line.startTime + 5\<close>: the start of the next line
  unless there is none or it is \<^verbatim>\<open>0\<close> or NaN.\<close>

definition fallbackEnd :: "TimedLine list \<Rightarrow> nat \<Rightarrow> number" where
  "fallbackEnd ls i =
     (if i + 1 < length ls \<and> truthy (startTime (ls ! (i + 1))) then startTime (ls ! (i + 1))
      else js_add (startTime (ls ! i)) (Fin 5))"

text \<open>One \<^verbatim>\<open>p\<close> element. The attribute bag prints in the order of insertion, which is
  the order of \<^verbatim>\<open>Object.entries\<close> for keys that are no integers; the parser stores
  only keys that are \<^verbatim>\<open>key\<close> or begin with \<^verbatim>\<open>itunes:\<close>.\<close>

definition paragraphOf :: "TimedLine list \<Rightarrow> (string \<times> string) list \<Rightarrow> nat \<Rightarrow> string" where
  "paragraphOf ls agentMap i =
     (let line = ls ! i;
          beginStr = formatTimestamp (startTime line) 3;
          endStr = (case endTime line of
                      Some e \<Rightarrow> if truthy e then formatTimestamp e 3
                                else formatTimestamp (fallbackEnd ls i) 3
                    | None \<Rightarrow> formatTimestamp (fallbackEnd ls i) 3);
          agentId = strOr (map_of agentMap (strOr (voice line) ''v1'')) ''v1'';
          attrStr = (case attributes line of
                       Some kvs \<Rightarrow> concat (map (\<lambda>(k, v). '' '' @ k @ ''='' @ dq @ v @ dq) kvs)
                     | None \<Rightarrow> '' itunes:key='' @ dq @ ''L'' @ nat_toString (i + 1) @ dq)
      in ''      <p begin='' @ dq @ beginStr @ dq @ '' end='' @ dq @ endStr @ dq @ '' ttm:agent='' @ dq
           @ agentId @ dq @ attrStr @ ''>'' @ nl
         @ concat (map spanOf (words line))
         @ ''      </p>'' @ nl)"

definition generateTTML :: "LyricsDocument \<Rightarrow> string" where
  "generateTTML doc =
     (let voices = uniq (map (\<lambda>l. strOr (voice l) ''v1'') (lines doc));
          agentMap = agentMapOf voices
      in ttmlProlog @ timingMode doc @ ttmlHead doc voices agentMap
         @ concat (map (paragraphOf (lines doc) agentMap) [0..<length (lines doc)])
         @ ''    </div>'' @ nl @ ''  </body>'' @ nl @ ''</tt>'')"

text \<open>The reading of the specification: only the words after the first of a line
  count.\<close>

definition wordSyncAfterFirst :: "LyricsDocument \<Rightarrow> bool" where
  "wordSyncAfterFirst doc =
     list_ex (\<lambda>l. 1 < length (words l) \<and>
                  list_ex (\<lambda>w. js_gt (word_startTime w) (js_add (startTime l) (Fin 0.05)))
                    (tl (words l)))
       (lines doc)"

section \<open>Properties of the timestamp codec\<close>

lemma takeWhile_digits:
  assumes "\<forall>c\<in>set ds. isDigit c" and "r = [] \<or> \<not> isDigit (hd r)"
  shows "takeWhile isDigit (ds @ r) = ds" and "dropWhile isDigit (ds @ r) = r"
  using assms by (induction ds) (auto simp: takeWhile_eq_Nil_iff dropWhile_eq_self_iff neq_Nil_conv)

lemma takeWhile_all_digits:
  assumes "\<forall>c\<in>set ds. isDigit c"
  shows "takeWhile isDigit ds = ds" and "dropWhile isDigit ds = []"
  using assms by simp_all

lemma digit_facts:
  assumes "isDigit c"
  shows "\<not> isWhiteSpace c" and "c \<noteq> CHR ''-''" and "c \<noteq> CHR ''+''" and "c \<noteq> CHR '':''"
    and "c \<noteq> CHR ''.''" and "c \<noteq> CHR ''I''" and "c \<notin> set ''[]<>''"
  using assms by (auto simp: isDigit_def isWhiteSpace_def)

lemma takeSign_digits:
  assumes "ds \<noteq> []" and "isDigit (hd ds)"
  shows "takeSign (trimStart (ds @ r)) = (1, ds @ r)"
  using assms by (cases ds) (auto simp: trimStart_def digit_facts)

lemma parseInt_digits:
  assumes "ds \<noteq> []" and "\<forall>c\<in>set ds. isDigit c"
  shows "parseInt ds = Fin (real (digitsVal ds))"
proof -
  have "takeSign (trimStart (ds @ [])) = (1, ds @ [])"
    using assms by (intro takeSign_digits) (cases ds; simp)+
  then show ?thesis
    using assms by (simp add: parseInt_def takeWhile_all_digits)
qed

lemma parseFloat_digits:
  assumes "ip \<noteq> []" and "\<forall>c\<in>set ip. isDigit c" and "\<forall>c\<in>set fp. isDigit c"
  shows "parseFloat (ip @ CHR ''.'' # fp) =
         Fin (real (digitsVal ip) + real (digitsVal fp) / 10 ^ length fp)"
proof -
  have s: "takeSign (trimStart (ip @ CHR ''.'' # fp)) = (1, ip @ CHR ''.'' # fp)"
    using assms by (intro takeSign_digits) (cases ip; simp)+
  have i: "\<not> startsWith (ip @ CHR ''.'' # fp) ''Infinity''"
    using assms by (cases ip) (auto simp: startsWith_def digit_facts)
  have nd: "\<not> isDigit CHR ''.''" by (simp add: isDigit_def)
  have t: "takeWhile isDigit (ip @ CHR ''.'' # fp) = ip"
    and d: "dropWhile isDigit (ip @ CHR ''.'' # fp) = CHR ''.'' # fp"
    using assms nd by (simp_all add: takeWhile_digits)
  show ?thesis
    using assms by (simp add: parseFloat_def s i t d takeWhile_all_digits exponentFactor_def)
qed

lemma length_splitChar: "length (splitChar c s) = Suc (count_list s c)"
  by (induction s) (auto split: list.splits)

lemma parseFloat_NaN:
  assumes "\<not> beginsWithNumber t"
  shows "parseFloat t = NaN"
proof -
  obtain sign r where sr: "takeSign (trimStart t) = (sign, r)"
    by (cases "takeSign (trimStart t)")
  from assms sr have i: "\<not> startsWith r ''Infinity''"
    and d: "r = [] \<or> \<not> isDigit (hd r)"
    and p: "\<not> (2 \<le> length r \<and> hd r = CHR ''.'' \<and> isDigit (r ! 1))"
    by (auto simp: beginsWithNumber_def)
  from d have ip: "takeWhile isDigit r = []" and r1: "dropWhile isDigit r = r"
    by (cases r; simp)+
  have fp: "takeWhile isDigit (tl r) = []" if "r \<noteq> []" "hd r = CHR ''.''"
  proof (cases "tl r")
    case Nil
    then show ?thesis by simp
  next
    case (Cons a as)
    with that p have "\<not> isDigit a"
      by (cases r) auto
    with Cons show ?thesis by simp
  qed
  show ?thesis
    by (simp add: parseFloat_def sr i ip r1 fp Let_def)
qed

text \<open>
  C3, as amended. parseTimestamp is a total function that never throws (the
  model has no error value, see its definition). It returns 0 for every input
  whose text, trimmed and stripped of brackets, has neither one nor two colons
  and does not begin with a number.
\<close>

theorem parseTimestamp_unparseable:
  assumes "count_list (removeBrackets (trim s)) CHR '':'' \<notin> {1, 2}"
    and "\<not> beginsWithNumber (removeBrackets (trim s))"
  shows "parseTimestamp s = Fin 0"
  using assms(1) parseFloat_NaN [OF assms(2)]
  by (simp add: parseTimestamp_def length_splitChar isNaN_def)

lemmas string_eval = trim_def trimStart_def trimEnd_def removeBrackets_def isWhiteSpace_def
  isDigit_def startsWith_def

theorem parseTimestamp_unparseable_witness:
  "count_list (removeBrackets (trim ''[intro]'')) CHR '':'' \<notin> {1, 2} \<and>
   \<not> beginsWithNumber (removeBrackets (trim ''[intro]'')) \<and>
   parseTimestamp ''[intro]'' = Fin 0"
proof -
  have c: "removeBrackets (trim ''[intro]'') = ''intro''"
    by (simp add: string_eval)
  have a: "count_list (removeBrackets (trim ''[intro]'')) CHR '':'' \<notin> {1, 2}"
    unfolding c by simp
  have b: "\<not> beginsWithNumber (removeBrackets (trim ''[intro]''))"
    unfolding c by (simp add: beginsWithNumber_def string_eval)
  from a b parseTimestamp_unparseable [OF a b] show ?thesis
    by simp
qed

text \<open>The claim as written fails on \<^verbatim>\<open>12abc\<close>, which is none of the accepted forms:
  \<^verbatim>\<open>parseFloat\<close> reads the number at its front.\<close>

theorem parseTimestamp_prefix_counterexample:
  "\<not> acceptedForm ''12abc'' \<and> parseTimestamp ''12abc'' = Fin 12"
  by (simp add: acceptedForm_def unwrap_def decimalNumber_def allDigits_def parseTimestamp_def
      parseFloat_def parseInt_def string_eval exponentFactor_def digitsVal_def digitVal_def
      isNaN_def)

text \<open>With one or two colons the parts go through \<^verbatim>\<open>parseInt\<close> and \<^verbatim>\<open>parseFloat\<close>
  unchecked, and a part without a number makes the result NaN, not 0.\<close>

lemma parseTimestamp_NaN: "parseTimestamp ''a:b'' = NaN"
  by (simp add: parseTimestamp_def parseFloat_def parseInt_def string_eval)

text \<open>
  C8. For every precision in {2, 3} and every seconds input that is negative or
  non-finite, formatTimestamp returns the zero-valued string. The guard
  \<^verbatim>\<open>isNaN(seconds) || seconds < 0\<close> lets \<^verbatim>\<open>+Infinity\<close> through, and the code returns
  the text below for it.
\<close>

theorem formatTimestamp_PInf:
  "formatTimestamp PInf 2 = ''Infinity:NaN:NaN.NaN'' \<and>
   formatTimestamp PInf 3 = ''Infinity:NaN:NaN.NaN''"
  by (simp add: formatTimestamp_def isNaN_def js_gt_def padStart_def)

text \<open>The guard does return the zero-valued string for NaN, for \<^verbatim>\<open>-Infinity\<close> and for
  the negative numbers.\<close>

lemma formatTimestamp_invalid:
  assumes "x = NaN \<or> x = NInf \<or> (\<exists>a. x = Fin a \<and> a < 0)"
  shows "formatTimestamp x 2 = ''00:00.00''" and "formatTimestamp x 3 = ''00:00.000''"
  using assms by (auto simp: formatTimestamp_def isNaN_def)

section \<open>Properties of parseLRC\<close>

lemmas lrc_eval =
  parseLRC_def scanLRC_def processLine_def timedLines_def pushLine_def plainWord_def timedPart_def
  extractTimestamps.simps execGlobal_def lineTimeRegex_def tagRegex_def matchTime_def takeDigits_def
  optGroup_def metaRegex_def voiceRegex_def wordTimingRegex_def separatorRegex_def regexTest_def
  lineTimeOf_def tagTimeOf_def isKeyChar_def isVoiceChar_def isTagChar_def isLetter_def
  isLineTerminator_def toLowerCase_def setMetadata_def lrcInitialMetadata_def emptyMetadata_def
  Array_sort_def byStartTime_def js_sub_def js_gt_def
  inferEndTimes.simps inferWordEnds.simps
  trim_def trimStart_def trimEnd_def isWhiteSpace_def isDigit_def startsWith_def endsWith_def
  parseInt_def parseFloat_def exponentFactor_def digitsVal_def digitVal_def
  strOr_def strTruthy_def splitNames_def Let_def nl_def

text \<open>The scenario of the specification: one text line with two timestamps gives two
  lines with the same text.\<close>

lemma parseLRC_chorus:
  "map (\<lambda>l. (startTime l, rawText l, map word_text (words l)))
     (lines (parseLRC ids ''[00:01.00][00:05.00]Chorus'')) =
   [(Fin 1, ''Chorus'', [''Chorus'']), (Fin 5, ''Chorus'', [''Chorus''])]"
  by (simp add: lrc_eval)

text \<open>
  C4. A text line that begins with k \<ge> 1 consecutive bracketed timestamps gives
  exactly k lines. The regular expression object is shared by all the text lines
  and keeps its \<^verbatim>\<open>lastIndex\<close> when a line has a timestamp that is not at its start:
  the search in the next text line then starts at that position, and the line
  \<^verbatim>\<open>[00:02.00]Hi\<close>, which alone gives one line, gives none after \<^verbatim>\<open>x [00:01.00]\<close>.
\<close>

theorem parseLRC_stale_lastIndex:
  "map rawText (lines (parseLRC ids ''[00:02.00]Hi'')) = [''Hi''] \<and>
   lines (parseLRC ids (''x [00:01.00]'' @ nl @ ''[00:02.00]Hi'')) = []"
  by (simp add: lrc_eval)

lemma inferWordEnds_from:
  "j \<le> length ws \<Longrightarrow>
   inferWordEnds j e ws = take j ws @ map (wordEndAt e ws) [j..<length ws]"
proof (induction j e ws rule: inferWordEnds.induct)
  case (1 j e ws)
  show ?case
  proof (cases "j < length ws")
    case False
    with 1(2) show ?thesis
      by (subst inferWordEnds.simps) simp
  next
    case True
    let ?ws' = "ws[j := wordEndAt e ws j]"
    have same: "wordEndAt e ?ws' k = wordEndAt e ws k" if "j < k" for k
      using that by (simp add: wordEndAt_def)
    have "inferWordEnds j e ws = inferWordEnds (j + 1) e ?ws'"
      using True by (subst inferWordEnds.simps) (simp add: wordEndAt_def)
    also have "\<dots> = take (j + 1) ?ws' @ map (wordEndAt e ?ws') [j + 1..<length ?ws']"
      using True 1(1) [OF True] by (simp add: wordEndAt_def)
    also have "take (j + 1) ?ws' = take j ws @ [wordEndAt e ws j]"
      using True by (simp add: take_Suc_conv_app_nth)
    also have "map (wordEndAt e ?ws') [j + 1..<length ?ws'] = map (wordEndAt e ws) [j + 1..<length ws]"
      using same by (intro map_cong) auto
    finally show ?thesis
      using True by (simp add: upt_conv_Cons)
  qed
qed

lemma inferWordEnds_all: "inferWordEnds 0 e ws = map (wordEndAt e ws) [0..<length ws]"
  using inferWordEnds_from [of 0 ws e] by simp

lemma inferEndTimes_from:
  "i \<le> length ls \<Longrightarrow> inferEndTimes i ls = take i ls @ map (lineAt ls) [i..<length ls]"
proof (induction i ls rule: inferEndTimes.induct)
  case (1 i ls)
  show ?case
  proof (cases "i < length ls")
    case False
    with 1(2) show ?thesis
      by (subst inferEndTimes.simps) simp
  next
    case True
    let ?ls' = "ls[i := lineAt ls i]"
    have step: "inferEndTimes i ls = inferEndTimes (i + 1) ?ls'"
      using True
      by (subst inferEndTimes.simps)
         (simp add: lineAt_def lineEndAt_def Let_def inferWordEnds_all)
    have same: "lineAt ?ls' k = lineAt ls k" if "i < k" for k
      using that by (simp add: lineAt_def lineEndAt_def)
    have "inferEndTimes (i + 1) ?ls' = take (i + 1) ?ls' @ map (lineAt ?ls') [i + 1..<length ?ls']"
      using True 1(1) [OF True refl refl]
      by (simp add: lineAt_def lineEndAt_def Let_def inferWordEnds_all)
    also have "take (i + 1) ?ls' = take i ls @ [lineAt ls i]"
      using True by (simp add: take_Suc_conv_app_nth)
    also have "map (lineAt ?ls') [i + 1..<length ?ls'] = map (lineAt ls) [i + 1..<length ls]"
      using same by (intro map_cong) auto
    finally show ?thesis
      using True step by (simp add: upt_conv_Cons)
  qed
qed

lemma inferEndTimes_all: "inferEndTimes 0 ls = map (lineAt ls) [0..<length ls]"
  using inferEndTimes_from [of 0 ls] by simp

lemma inferEndTimes_ends:
  assumes "i < length ls"
  defines "r \<equiv> inferEndTimes 0 ls"
  shows "length r = length ls"
    and "startTime (r ! i) = startTime (ls ! i)"
    and "endTime (r ! i) =
         Some (if i < length r - 1 then startTime (r ! (i + 1)) else js_add (startTime (r ! i)) (Fin 5))"
    and "length (words (r ! i)) = length (words (ls ! i))"
    and "j < length (words (r ! i)) \<Longrightarrow>
         word_endTime (words (r ! i) ! j) =
           (if j < length (words (r ! i)) - 1 then Some (word_startTime (words (r ! i) ! (j + 1)))
            else endTime (r ! i))"
proof -
  have r: "r = map (lineAt ls) [0..<length ls]"
    by (simp add: r_def inferEndTimes_all)
  show len: "length r = length ls"
    by (simp add: r)
  have st: "startTime (r ! k) = startTime (ls ! k)" if "k < length ls" for k
    using that by (simp add: r lineAt_def)
  from assms(1) show "startTime (r ! i) = startTime (ls ! i)"
    by (rule st)
  have e: "endTime (r ! i) = Some (lineEndAt ls i)"
    using assms(1) by (simp add: r lineAt_def)
  have "lineEndAt ls i =
        (if i < length r - 1 then startTime (r ! (i + 1)) else js_add (startTime (r ! i)) (Fin 5))"
    using assms(1) by (simp add: lineEndAt_def len st)
  with e show "endTime (r ! i) =
         Some (if i < length r - 1 then startTime (r ! (i + 1)) else js_add (startTime (r ! i)) (Fin 5))"
    by simp
  have w: "words (r ! i) = map (wordEndAt (endTime (r ! i)) (words (ls ! i))) [0..<length (words (ls ! i))]"
    using assms(1) by (simp add: r lineAt_def)
  then show wl: "length (words (r ! i)) = length (words (ls ! i))"
    by simp
  show "word_endTime (words (r ! i) ! j) =
           (if j < length (words (r ! i)) - 1 then Some (word_startTime (words (r ! i) ! (j + 1)))
            else endTime (r ! i))" if "j < length (words (r ! i))"
    using that unfolding wl by (subst (1 2) w) (simp add: wordEndAt_def)
qed

text \<open>
  C5. In the document the LRC/ELRC parser returns, every line but the last has
  as endTime the startTime of the next line, and the last line its own startTime
  plus 5; within every line, every word but the last has as endTime the
  startTime of the next word, and the last word the endTime of the line.
\<close>

theorem parseLRC_end_times:
  assumes "doc = parseLRC ids txt \<or> doc = parseELRC ids txt" and "i < length (lines doc)"
  shows "endTime (lines doc ! i) =
           Some (if i < length (lines doc) - 1 then startTime (lines doc ! (i + 1))
                 else js_add (startTime (lines doc ! i)) (Fin 5)) \<and>
         (\<forall>j < length (words (lines doc ! i)).
            word_endTime (words (lines doc ! i) ! j) =
              (if j < length (words (lines doc ! i)) - 1
               then Some (word_startTime (words (lines doc ! i) ! (j + 1)))
               else endTime (lines doc ! i)))"
proof -
  define ls where "ls = Array_sort byStartTime (lrc_lines (scanLRC ids txt))"
  have l: "lines doc = inferEndTimes 0 ls"
    using assms(1) by (auto simp: parseLRC_def parseELRC_def Let_def ls_def)
  have n: "i < length ls"
    using assms(2) inferEndTimes_all [of ls] by (simp add: l)
  show ?thesis
    unfolding l using inferEndTimes_ends(3,5) [OF n] by blast
qed

theorem parseLRC_end_times_witness:
  "map (\<lambda>l. (startTime l, endTime l, map (\<lambda>w. (word_startTime w, word_endTime w)) (words l)))
     (lines (parseLRC exampleIds ''[00:01.00][00:05.00]<00:05.00>La <00:05.50>la'')) =
   [(Fin 1, Some (Fin 5), [(Fin 5, Some (Fin (11 / 2))), (Fin (11 / 2), Some (Fin 5))]),
    (Fin 5, Some (Fin 10), [(Fin 5, Some (Fin (11 / 2))), (Fin (11 / 2), Some (Fin 10))])] \<and>
   endTime (lines (parseLRC exampleIds ''[00:01.00][00:05.00]<00:05.00>La <00:05.50>la'') ! 0) =
     Some (startTime (lines (parseLRC exampleIds ''[00:01.00][00:05.00]<00:05.00>La <00:05.50>la'') ! 1))"
proof -
  let ?doc = "parseLRC exampleIds ''[00:01.00][00:05.00]<00:05.00>La <00:05.50>la''"
  let ?f = "\<lambda>l. (startTime l, endTime l, map (\<lambda>w. (word_startTime w, word_endTime w)) (words l))"
  have v: "map ?f (lines ?doc) =
   [(Fin 1, Some (Fin 5), [(Fin 5, Some (Fin (11 / 2))), (Fin (11 / 2), Some (Fin 5))]),
    (Fin 5, Some (Fin 10), [(Fin 5, Some (Fin (11 / 2))), (Fin (11 / 2), Some (Fin 10))])]"
    by (simp add: lrc_eval)
  have "length (map ?f (lines ?doc)) = 2"
    by (simp only: v) simp
  then have n: "length (lines ?doc) = 2"
    by (simp only: length_map)
  then have i: "0 < length (lines ?doc)"
    by simp
  have "endTime (lines ?doc ! 0) = Some (startTime (lines ?doc ! 1))"
    using parseLRC_end_times [OF disjI1 [OF refl] i] by (simp add: n)
  with v show ?thesis
    by (simp only: simp_thms)
qed

section \<open>The order of the lines of a parsed document\<close>

subsection \<open>The sort\<close>

lemma compare_gt:
  "a \<noteq> NaN \<Longrightarrow> b \<noteq> NaN \<Longrightarrow> js_gt (js_sub a b) (Fin 0) = js_lt b a"
  by (cases a; cases b) (auto simp: js_gt_def js_sub_def)

lemma compare_same: "\<not> js_gt (js_sub a a) (Fin 0)"
  by (cases a) (auto simp: js_gt_def js_sub_def)

lemma js_le_refl: "a \<noteq> NaN \<Longrightarrow> js_le a a"
  by (cases a) (auto simp: js_le_def js_ge_def)

lemma js_le_trans: "js_le a b \<Longrightarrow> js_le b c \<Longrightarrow> js_le a c"
  by (cases a; cases b; cases c) (auto simp: js_le_def js_ge_def)

lemma js_le_linear: "a \<noteq> NaN \<Longrightarrow> b \<noteq> NaN \<Longrightarrow> \<not> js_lt b a \<Longrightarrow> js_le a b"
  by (simp add: js_le_def js_ge_def)

lemma js_lt_le: "js_lt b a \<Longrightarrow> js_le b a"
  by (cases a; cases b) (auto simp: js_le_def js_ge_def)

lemma set_insertSorted: "set (insertSorted cmp x ys) = insert x (set ys)"
  by (induction ys) auto

lemma set_Array_sort: "set (Array_sort cmp xs) = set xs"
  by (induction xs) (auto simp: Array_sort_def set_insertSorted)

lemma length_Array_sort: "length (Array_sort cmp xs) = length xs"
proof -
  have "length (insertSorted cmp x ys) = Suc (length ys)" for x ys
    by (induction ys) auto
  then show ?thesis
    by (induction xs) (auto simp: Array_sort_def)
qed

lemma sorted_insertSorted:
  assumes "sorted_wrt (\<lambda>a b. js_le (startTime a) (startTime b)) ys"
    and "startTime x \<noteq> NaN" and "\<forall>y\<in>set ys. startTime y \<noteq> NaN"
  shows "sorted_wrt (\<lambda>a b. js_le (startTime a) (startTime b)) (insertSorted byStartTime x ys)"
  using assms
proof (induction ys)
  case Nil
  then show ?case by simp
next
  case (Cons y ys)
  show ?case
  proof (cases "js_lt (startTime y) (startTime x)")
    case True
    then have "js_le (startTime y) (startTime x)"
      by (rule js_lt_le)
    with Cons True show ?thesis
      by (auto simp: byStartTime_def compare_gt set_insertSorted)
  next
    case False
    with Cons.prems have xy: "js_le (startTime x) (startTime y)"
      by (simp add: js_le_linear)
    then have "js_le (startTime x) (startTime z)" if "z \<in> set ys" for z
      using that Cons.prems(1) by (auto intro: js_le_trans)
    with Cons.prems False xy show ?thesis
      by (auto simp: byStartTime_def compare_gt)
  qed
qed

lemma sorted_Array_sort:
  assumes "\<forall>x\<in>set xs. startTime x \<noteq> NaN"
  shows "sorted_wrt (\<lambda>a b. js_le (startTime a) (startTime b)) (Array_sort byStartTime xs)"
  using assms
proof (induction xs)
  case Nil
  then show ?case by (simp add: Array_sort_def)
next
  case (Cons x xs)
  then have "sorted_wrt (\<lambda>a b. js_le (startTime a) (startTime b))
               (insertSorted byStartTime x (Array_sort byStartTime xs))"
    by (intro sorted_insertSorted) (auto simp: set_Array_sort)
  then show ?case
    by (simp add: Array_sort_def)
qed

lemma filter_insertSorted:
  "filter (\<lambda>l. startTime l = t) (insertSorted byStartTime x ys) =
     (if startTime x = t then x # filter (\<lambda>l. startTime l = t) ys
      else filter (\<lambda>l. startTime l = t) ys)"
proof (induction ys)
  case Nil
  then show ?case by simp
next
  case (Cons y ys)
  have "startTime y \<noteq> startTime x" if "js_gt (byStartTime x y) (Fin 0)"
    using that compare_same [of "startTime x"] by (auto simp: byStartTime_def)
  with Cons show ?case
    by auto
qed

lemma stable_Array_sort:
  "filter (\<lambda>l. startTime l = t) (Array_sort byStartTime xs) = filter (\<lambda>l. startTime l = t) xs"
  by (induction xs) (auto simp: Array_sort_def filter_insertSorted)

subsection \<open>No line starts at NaN\<close>

lemma takeDigits_digits:
  assumes "takeDigits n s = Some (ds, r)"
  shows "ds \<noteq> []" and "\<forall>c\<in>set ds. isDigit c"
  using assms by (auto simp: takeDigits_def Let_def split: if_splits dest: set_takeWhileD)

lemma optGroup_digits:
  assumes "optGroup c n s = (Some g, r)"
  shows "g \<noteq> []" and "\<forall>c\<in>set g. isDigit c"
  using assms
  by (auto simp: optGroup_def split: list.splits if_splits option.splits dest: takeDigits_digits)

lemma matchTime_groups:
  assumes "matchTime opn cls s = Some r"
  shows "group1 r \<noteq> [] \<and> (\<forall>c\<in>set (group1 r). isDigit c)"
    and "group2 r \<noteq> [] \<and> (\<forall>c\<in>set (group2 r). isDigit c)"
    and "group3 r = Some g \<Longrightarrow> g \<noteq> [] \<and> (\<forall>c\<in>set g. isDigit c)"
    and "group4 r = Some g \<Longrightarrow> (\<forall>c\<in>set g. isDigit c)"
proof -
  from assms obtain x t g1 r1 y r2 g2 r3 g3 r4 g4 r5 where
    1: "takeDigits 2 t = Some (g1, r1)" and 2: "takeDigits 2 r2 = Some (g2, r3)"
    and 3: "optGroup CHR '':'' 2 r3 = (g3, r4)" and 4: "optGroup CHR ''.'' 3 r4 = (g4, r5)"
    and g: "group1 r = g1" "group2 r = g2" "group3 r = g3" "group4 r = g4"
    by (auto simp: matchTime_def Let_def split: list.splits if_splits option.splits prod.splits)
  from takeDigits_digits [OF 1] g show "group1 r \<noteq> [] \<and> (\<forall>c\<in>set (group1 r). isDigit c)"
    by simp
  from takeDigits_digits [OF 2] g show "group2 r \<noteq> [] \<and> (\<forall>c\<in>set (group2 r). isDigit c)"
    by simp
  show "g' \<noteq> [] \<and> (\<forall>c\<in>set g'. isDigit c)" if "group3 r = Some g'" for g'
    using that 3 g optGroup_digits [of "CHR '':''" 2 r3 g' r4] by simp
  show "\<forall>c\<in>set g'. isDigit c" if "group4 r = Some g'" for g'
    using that 4 g optGroup_digits [of "CHR ''.''" 3 r4 g' r5] by simp
qed

lemma parseFloat_fraction:
  assumes "\<forall>c\<in>set fp. isDigit c"
  shows "parseFloat (''0.'' @ fp) = Fin (real (digitsVal fp) / 10 ^ length fp)"
proof -
  have "parseFloat (''0'' @ CHR ''.'' # fp) =
        Fin (real (digitsVal ''0'') + real (digitsVal fp) / 10 ^ length fp)"
    using assms by (intro parseFloat_digits) (simp_all add: isDigit_def)
  then show ?thesis
    by (simp add: digitsVal_def digitVal_def)
qed

lemma lineTimeOf_finite:
  assumes "lineTimeRegex s = Some r"
  shows "lineTimeOf r \<noteq> NaN"
proof -
  note g = matchTime_groups [OF assms [unfolded lineTimeRegex_def]]
  have i1: "parseInt (group1 r) = Fin (real (digitsVal (group1 r)))"
    and i2: "parseInt (group2 r) = Fin (real (digitsVal (group2 r)))"
    using g(1,2) by (simp_all add: parseInt_digits)
  have "\<forall>c\<in>set (strOr (group4 r) ''0''). isDigit c"
    using g(4) by (cases "group4 r") (auto simp: strOr_def isDigit_def)
  then have ms: "\<exists>x. parseFloat (''0.'' @ strOr (group4 r) ''0'') = Fin x"
    by (simp only: parseFloat_fraction) simp
  then obtain x where x: "parseFloat (CHR ''0'' # CHR ''.'' # strOr (group4 r) ''0'') = Fin x"
    by auto
  show ?thesis
  proof (cases "group3 r")
    case None
    then show ?thesis
      by (simp add: lineTimeOf_def i1 i2 x)
  next
    case (Some g3)
    with g(3) have "parseInt g3 = Fin (real (digitsVal g3))"
      by (simp add: parseInt_digits)
    with Some show ?thesis
      by (simp add: lineTimeOf_def i1 i2 x)
  qed
qed

lemma searchFrom_match: "searchFrom m i s = Some (j, r) \<Longrightarrow> \<exists>t. m t = Some r"
  by (induction m i s rule: searchFrom.induct) (auto split: option.splits)

lemma execGlobal_match:
  "execGlobal m li0 s = (Some (j, r), li) \<Longrightarrow> \<exists>t. m t = Some r"
  by (auto simp: execGlobal_def split: if_splits option.splits dest: searchFrom_match)

lemma extractTimestamps_finite:
  assumes "extractTimestamps li content ts = (ts', content', li')"
    and "\<forall>t\<in>set ts. t \<noteq> NaN"
  shows "\<forall>t\<in>set ts'. t \<noteq> NaN"
  using assms
proof (induction li content ts rule: extractTimestamps.induct)
  case (1 li content ts)
  show ?case
  proof (cases "execGlobal lineTimeRegex li content")
    case (Pair res l)
    show ?thesis
    proof (cases res)
      case None
      with Pair 1(2,3) show ?thesis
        by (subst (asm) extractTimestamps.simps) auto
    next
      case (Some a)
      obtain index result where a: "a = (index, result)"
        by (cases a)
      show ?thesis
      proof (cases "index = 0")
        case False
        with Pair Some a 1(2,3) show ?thesis
          by (subst (asm) extractTimestamps.simps) auto
      next
        case True
        from Pair Some a obtain t where "lineTimeRegex t = Some result"
          using execGlobal_match by blast
        then have "lineTimeOf result \<noteq> NaN"
          by (rule lineTimeOf_finite)
        with 1(3) have ok: "\<forall>t\<in>set (ts @ [lineTimeOf result]). t \<noteq> NaN"
          by simp
        from 1(2) Pair Some a True
        have "extractTimestamps 0 (trim (drop (length (whole result)) content))
                (ts @ [lineTimeOf result]) = (ts', content', li')"
          by (subst (asm) extractTimestamps.simps) simp
        from 1(1) [OF Pair [symmetric] Some a [symmetric] True this ok]
        show ?thesis .
      qed
    qed
  qed
qed

lemma pushLine_startsKnown:
  assumes "startsKnown (fst st)" and "t \<noteq> NaN"
  shows "startsKnown (fst (pushLine ids content voiceName isBg timed t st))"
  using assms
  by (cases st) (auto simp: pushLine_def startsKnown_def Let_def split: prod.splits)

lemma fold_pushLine_startsKnown:
  assumes "startsKnown (fst st)" and "\<forall>t\<in>set ts. t \<noteq> NaN"
  shows "startsKnown (fst (fold (pushLine ids content voiceName isBg timed) ts st))"
  using assms by (induction ts arbitrary: st) (auto simp: pushLine_startsKnown)

lemma timedLines_startsKnown:
  assumes "startsKnown (lrc_lines st)"
  shows "startsKnown (lrc_lines (timedLines ids content st))"
proof -
  obtain ts c li where e: "extractTimestamps (lastIndex st) content [] = (ts, c, li)"
    by (cases "extractTimestamps (lastIndex st) content []")
  then have "\<forall>t\<in>set ts. t \<noteq> NaN"
    by (rule extractTimestamps_finite) simp
  with assms have "startsKnown (fst (fold (pushLine ids c' v b w) ts (lrc_lines st, nextId st)))"
    for c' v b w
    by (intro fold_pushLine_startsKnown) simp_all
  with assms e show ?thesis
    by (auto simp: timedLines_def Let_def split: prod.splits) (metis fst_conv)
qed

lemma processLine_startsKnown:
  "startsKnown (lrc_lines st) \<Longrightarrow> startsKnown (lrc_lines (processLine ids rawLine st))"
  by (auto simp: processLine_def Let_def timedLines_startsKnown split: option.splits)

lemma scanLRC_startsKnown: "startsKnown (lrc_lines (scanLRC ids txt))"
proof -
  have "startsKnown (lrc_lines (fold (processLine ids) rawLines st))"
    if "startsKnown (lrc_lines st)" for rawLines st
    using that by (induction rawLines arbitrary: st) (auto simp: processLine_startsKnown)
  moreover have "startsKnown (lrc_lines \<lparr>lrc_lines = [], lrc_metadata = lrcInitialMetadata,
      lastIndex = 0, nextId = 0\<rparr>)"
    by (simp add: startsKnown_def)
  ultimately show ?thesis
    unfolding scanLRC_def by blast
qed

lemma orZero_known: "orZero t \<noteq> NaN"
  by (auto simp: orZero_def truthy_def split: option.splits)

lemma ttmlLine_startsKnown:
  "startsKnown (fst st) \<Longrightarrow> startsKnown (fst (ttmlLine ids agentMap p st))"
  by (cases st) (auto simp: ttmlLine_def startsKnown_def Let_def orZero_known split: prod.splits)

lemma scanBody_startsKnown: "startsKnown (scanBody ids agentMap body)"
proof -
  have ps: "startsKnown (fst (fold (ttmlLine ids agentMap) ps st))"
    if "startsKnown (fst st)" for ps st
    using that by (induction ps arbitrary: st) (auto simp: ttmlLine_startsKnown)
  have "startsKnown (fst (fold (\<lambda>container. fold (ttmlLine ids agentMap)
          (getElementsByTagName container ''p'')) containers st))"
    if "startsKnown (fst st)" for containers st
    using that by (induction containers arbitrary: st) (auto simp: ps)
  moreover have "startsKnown (fst ([] :: TimedLine list, 0 :: nat))"
    by (simp add: startsKnown_def)
  ultimately show ?thesis
    unfolding scanBody_def Let_def by blast
qed

lemma plainLine_zero:
  assumes "\<forall>l\<in>set (fst st). startTime l = Fin 0"
  shows "\<forall>l\<in>set (fst (plainLine ids l st)). startTime l = Fin 0"
  using assms by (cases st) (auto simp: plainLine_def Let_def split: prod.splits)

lemma parsePlain_zero: "\<forall>l\<in>set (lines (parsePlain ids txt)). startTime l = Fin 0"
proof -
  have "\<forall>l\<in>set (fst (fold (plainLine ids) ls st)). startTime l = Fin 0"
    if "\<forall>l\<in>set (fst st). startTime l = Fin 0" for ls st
    using that
  proof (induction ls arbitrary: st)
    case Nil
    then show ?case by simp
  next
    case (Cons a ls)
    from Cons.IH [OF plainLine_zero [OF Cons.prems]] show ?case
      by simp
  qed
  from this [of "([], 0)"] show ?thesis
    by (simp add: parsePlain_def)
qed

subsection \<open>The end times leave the rest of a line alone\<close>

lemma withoutEnds_lineAt: "withoutEnds (lineAt ls i) = withoutEnds (ls ! i)"
proof -
  have "map (\<lambda>w. w\<lparr>word_endTime := None\<rparr>) (map (wordEndAt e ws) [0..<length ws]) =
        map (\<lambda>w. w\<lparr>word_endTime := None\<rparr>) ws" for e ws
    by (rule nth_equalityI) (simp_all add: wordEndAt_def)
  then show ?thesis
    by (simp add: withoutEnds_def lineAt_def)
qed

lemma withoutEnds_inferEndTimes: "map withoutEnds (inferEndTimes 0 ls) = map withoutEnds ls"
  by (rule nth_equalityI) (simp_all add: inferEndTimes_all withoutEnds_lineAt)

lemma startTime_withoutEnds: "startTime (withoutEnds l) = startTime l"
  by (simp add: withoutEnds_def)

lemma startTime_inferEndTimes: "map startTime (inferEndTimes 0 ls) = map startTime ls"
proof -
  have "map (startTime \<circ> withoutEnds) (inferEndTimes 0 ls) = map (startTime \<circ> withoutEnds) ls"
    using withoutEnds_inferEndTimes [of ls] by (metis map_map)
  then show ?thesis
    by (simp add: comp_def startTime_withoutEnds)
qed

lemma sorted_by_startTime:
  "sorted_wrt (\<lambda>a b. js_le (startTime a) (startTime b)) ls = sorted_wrt js_le (map startTime ls)"
  by (simp add: sorted_wrt_map)

lemma filter_withoutEnds:
  "filter (\<lambda>l. startTime l = t) (map withoutEnds ls) =
   map withoutEnds (filter (\<lambda>l. startTime l = t) ls)"
  by (simp add: filter_map comp_def startTime_withoutEnds)

lemma lrc_sorted_stable:
  defines "enc \<equiv> \<lambda>ids txt. lrc_lines (scanLRC ids txt)"
  shows "sorted_wrt (\<lambda>a b. js_le (startTime a) (startTime b)) (lines (parseLRC ids txt))"
    and "filter (\<lambda>l. startTime l = t) (map withoutEnds (lines (parseLRC ids txt))) =
         filter (\<lambda>l. startTime l = t) (map withoutEnds (enc ids txt))"
proof -
  let ?s = "Array_sort byStartTime (enc ids txt)"
  have l: "lines (parseLRC ids txt) = inferEndTimes 0 ?s"
    by (simp add: parseLRC_def Let_def enc_def)
  have "\<forall>x\<in>set (enc ids txt). startTime x \<noteq> NaN"
    using scanLRC_startsKnown [of ids "txt"] by (simp add: startsKnown_def enc_def)
  then have "sorted_wrt (\<lambda>a b. js_le (startTime a) (startTime b)) ?s"
    by (rule sorted_Array_sort)
  then show "sorted_wrt (\<lambda>a b. js_le (startTime a) (startTime b)) (lines (parseLRC ids txt))"
    by (simp only: l sorted_by_startTime startTime_inferEndTimes)
  show "filter (\<lambda>l. startTime l = t) (map withoutEnds (lines (parseLRC ids txt))) =
         filter (\<lambda>l. startTime l = t) (map withoutEnds (enc ids txt))"
    by (simp only: l withoutEnds_inferEndTimes filter_withoutEnds stable_Array_sort)
qed

lemma ttml_sorted_stable:
  defines "enc \<equiv> \<lambda>ids xmlDoc. (case first (documentElementsByTagName xmlDoc ''body'') of
             None \<Rightarrow> []
           | Some body \<Rightarrow> scanBody ids (snd (parseHead xmlDoc)) body)"
  shows "sorted_wrt (\<lambda>a b. js_le (startTime a) (startTime b)) (lines (parseTTMLDocument ids xmlDoc))"
    and "filter (\<lambda>l. startTime l = t) (map withoutEnds (lines (parseTTMLDocument ids xmlDoc))) =
         filter (\<lambda>l. startTime l = t) (map withoutEnds (enc ids xmlDoc))"
proof -
  have l: "lines (parseTTMLDocument ids xmlDoc) = Array_sort byStartTime (enc ids xmlDoc)"
    by (simp add: parseTTMLDocument_def enc_def Array_sort_def split: prod.splits option.splits)
  have "\<forall>x\<in>set (enc ids xmlDoc). startTime x \<noteq> NaN"
    using scanBody_startsKnown by (auto simp: startsKnown_def enc_def split: option.splits)
  then show "sorted_wrt (\<lambda>a b. js_le (startTime a) (startTime b)) (lines (parseTTMLDocument ids xmlDoc))"
    unfolding l by (rule sorted_Array_sort)
  show "filter (\<lambda>l. startTime l = t) (map withoutEnds (lines (parseTTMLDocument ids xmlDoc))) =
         filter (\<lambda>l. startTime l = t) (map withoutEnds (enc ids xmlDoc))"
    by (simp only: l filter_withoutEnds stable_Array_sort)
qed

lemma plain_sorted: "sorted_wrt (\<lambda>a b. js_le (startTime a) (startTime b)) (lines (parsePlain ids txt))"
proof -
  have "js_le (startTime a) (startTime b)"
    if "a \<in> set (lines (parsePlain ids txt))" "b \<in> set (lines (parsePlain ids txt))" for a b
    using that parsePlain_zero [of ids "txt"] by (simp add: js_le_def js_ge_def)
  then show ?thesis
    by (simp add: sorted_wrt_iff_nth_less)
qed

text \<open>
  C2. For every input text, the lines of the document that parseLyrics returns,
  through the plain, LRC, ELRC or TTML parser, are in ascending order of
  startTime, and lines with the same startTime are in the order in which the
  parser met them.
\<close>

theorem parseLyrics_sorted_stable:
  "sorted_wrt (\<lambda>a b. js_le (startTime a) (startTime b))
     (lines (parseLyrics parseFromString ids txt fmt)) \<and>
   (\<forall>t. filter (\<lambda>l. startTime l = t) (map withoutEnds (lines (parseLyrics parseFromString ids txt fmt))) =
        filter (\<lambda>l. startTime l = t) (map withoutEnds (encounterLines parseFromString ids txt fmt)))"
proof -
  define detected where "detected = (case fmt of Some f \<Rightarrow> f | None \<Rightarrow> detectFormat txt)"
  have e: "lines (parseELRC ids txt) = lines (parseLRC ids txt)"
    by (simp add: parseELRC_def)
  show ?thesis
  proof (cases detected)
    case PLAIN
    then show ?thesis
      using plain_sorted [of ids "txt"]
      by (simp add: parseLyrics_def encounterLines_def detected_def [symmetric])
  next
    case LRC
    then show ?thesis
      using lrc_sorted_stable
      by (simp add: parseLyrics_def encounterLines_def detected_def [symmetric])
  next
    case ELRC
    then show ?thesis
      using lrc_sorted_stable
      by (simp add: parseLyrics_def encounterLines_def detected_def [symmetric] e)
  next
    case TTML
    then show ?thesis
      using ttml_sorted_stable
      by (simp add: parseLyrics_def encounterLines_def detected_def [symmetric] parseTTML_def)
  qed
qed

theorem parseLyrics_sorted_stable_witness:
  "map (\<lambda>l. (startTime l, rawText l))
     (lines (parseLyrics (\<lambda>s. parserErrorDocument) exampleIds
        (''[00:05.00]B'' @ nl @ ''[00:01.00]A'' @ nl @ ''[00:05.00]C'') None)) =
   [(Fin 1, ''A''), (Fin 5, ''B''), (Fin 5, ''C'')] \<and>
   sorted_wrt (\<lambda>a b. js_le (startTime a) (startTime b))
     (lines (parseLyrics (\<lambda>s. parserErrorDocument) exampleIds
        (''[00:05.00]B'' @ nl @ ''[00:01.00]A'' @ nl @ ''[00:05.00]C'') None))"
proof -
  have d: "detectFormat (''[00:05.00]B'' @ nl @ ''[00:01.00]A'' @ nl @ ''[00:05.00]C'') = LRC"
    by (simp add: detectFormat_def dq_def nl_def startsWith_def regexTest_def elrcRegex_def
        lrcRegex_def takeDigits_def takeTwoDigits_def isDigit_def optGroup_def)
  have "map (\<lambda>l. (startTime l, rawText l))
     (lines (parseLRC exampleIds (''[00:05.00]B'' @ nl @ ''[00:01.00]A'' @ nl @ ''[00:05.00]C''))) =
   [(Fin 1, ''A''), (Fin 5, ''B''), (Fin 5, ''C'')]"
    by (simp add: lrc_eval)
  with d parseLyrics_sorted_stable [of "\<lambda>s. parserErrorDocument" exampleIds
      "''[00:05.00]B'' @ nl @ ''[00:01.00]A'' @ nl @ ''[00:05.00]C''" None]
  show ?thesis
    by (simp add: parseLyrics_def)
qed

section \<open>Properties of parseTTML\<close>

lemmas ttml_eval =
  parseTTMLDocument_def parseHead_def scanBody_def ttmlLine_def getAttr_def getAttribute_def
  getAttributeNS_def getElementsByTagName_def getElementsByTagNameNS_def documentElementsByTagName_def
  first_def orElse_def strOrElse_def strOr_def strTruthy_def agentEntry_def getMeta_def
  ttmlInitialMetadata_def emptyMetadata_def parseTime_def orZero_def truthy_def
  parseTimestamp_def parseInt_def parseFloat_def exponentFactor_def digitsVal_def digitVal_def
  trim_def trimStart_def trimEnd_def isWhiteSpace_def isDigit_def startsWith_def endsWith_def
  removeBrackets_def toLowerCase_def ns_ttm_def ns_itunes_def isNaN_def
  Array_sort_def byStartTime_def js_sub_def js_gt_def js_ge_def Let_def

text \<open>The scenario of the specification: a line of the agent \<^verbatim>\<open>v1\<close>, named Lead in the
  head, with one word.\<close>

lemma parseTTML_example:
  "map (\<lambda>l. (startTime l, endTime l, voice l, map (\<lambda>w. (word_text w, word_startTime w)) (words l)))
     (lines (parseTTMLDocument ids exampleTTML)) =
   [(Fin 1, Some (Fin 3), Some ''Lead'', [(''Hello'', Fin 1)])]"
  by (simp add: ttml_eval exampleTTML_def)

text \<open>
  C7. For every input text whose XML parse has no body element, a parser error
  document included, the TTML parser returns a document with no lines; it does
  not throw.
\<close>

theorem parseTTML_no_body:
  assumes "documentElementsByTagName (parseFromString txt) ''body'' = []"
  shows "lines (parseTTML parseFromString ids txt) = [] \<and>
         format (parseTTML parseFromString ids txt) = TTML"
  using assms
  by (simp add: parseTTML_def parseTTMLDocument_def first_def split: prod.splits)

theorem parseTTML_no_body_witness:
  "documentElementsByTagName ((\<lambda>s. parserErrorDocument) ''<tt><body>'') ''body'' = [] \<and>
   lines (parseTTML (\<lambda>s. parserErrorDocument) exampleIds ''<tt><body>'') = []"
proof -
  have b: "documentElementsByTagName ((\<lambda>s. parserErrorDocument) ''<tt><body>'') ''body'' = []"
    by (simp add: documentElementsByTagName_def parserErrorDocument_def)
  from b parseTTML_no_body [OF b] show ?thesis
    by simp
qed

section \<open>Properties of generateTTML\<close>

lemma generateTTML_shape:
  "\<exists>rest. generateTTML doc = ttmlProlog @ timingMode doc @ dq @ rest"
  by (simp add: generateTTML_def ttmlHead_def Let_def)

text \<open>
  C9, as amended. For every document, generateTTML emits the itunes:timing
  attribute as "Word" exactly when some line has more than one word and some
  word of that line, the first included, starts more than 0.05 seconds after the
  line's own startTime, and as "Line" otherwise.
\<close>

theorem generateTTML_timing:
  "\<exists>rest. generateTTML doc =
     ttmlProlog
     @ (if \<exists>l\<in>set (lines doc). 1 < length (words l) \<and>
             (\<exists>w\<in>set (words l). js_gt (word_startTime w) (js_add (startTime l) (Fin 0.05)))
        then ''Word'' else ''Line'')
     @ dq @ rest"
  using generateTTML_shape [of doc]
  by (simp add: timingMode_def hasWordSync_def list_ex_iff)

theorem generateTTML_timing_witness:
  "\<exists>rest. generateTTML keptDoc = ttmlProlog @ ''Line'' @ dq @ rest"
  using generateTTML_timing [of keptDoc] by (simp add: keptDoc_def)

text \<open>
  The claim as written fails on a line whose first word alone starts late, such
  as the LRC parser returns for \<^verbatim>\<open>[00:00.00]<00:01.00>a <00:00.00>b\<close>: no word after
  the first starts late, and the attribute is "Word".
\<close>

lemma lateFirstWord_parsed:
  "map (\<lambda>l. (startTime l, map word_startTime (words l)))
     (lines (parseLRC ids ''[00:00.00]<00:01.00>a <00:00.00>b'')) =
   [(Fin 0, [Fin 1, Fin 0])]"
  by (simp add: lrc_eval)

theorem generateTTML_timing_counterexample:
  "\<not> wordSyncAfterFirst (parseLRC exampleIds ''[00:00.00]<00:01.00>a <00:00.00>b'') \<and>
   (\<exists>rest. generateTTML (parseLRC exampleIds ''[00:00.00]<00:01.00>a <00:00.00>b'') =
            ttmlProlog @ ''Word'' @ dq @ rest)"
proof -
  let ?doc = "parseLRC exampleIds ''[00:00.00]<00:01.00>a <00:00.00>b''"
  have t: "map (\<lambda>l. (startTime l, map word_startTime (words l))) (lines ?doc) =
           [(Fin 0, [Fin 1, Fin 0])]"
    by (rule lateFirstWord_parsed)
  then obtain l where l: "lines ?doc = [l]" and s: "startTime l = Fin 0"
    and w: "map word_startTime (words l) = [Fin 1, Fin 0]"
    by (cases "lines ?doc") auto
  from w obtain w1 w2 where ws: "words l = [w1, w2]"
    and w1: "word_startTime w1 = Fin 1" and w2: "word_startTime w2 = Fin 0"
    by (cases "words l"; cases "tl (words l)") auto
  have "hasWordSync ?doc"
    by (simp add: hasWordSync_def l s ws w1 w2 js_gt_def)
  then have "\<exists>rest. generateTTML ?doc = ttmlProlog @ ''Word'' @ dq @ rest"
    using generateTTML_shape [of ?doc] by (simp add: timingMode_def)
  moreover have "\<not> wordSyncAfterFirst ?doc"
    by (simp add: wordSyncAfterFirst_def l s ws w1 w2 js_gt_def)
  ultimately show ?thesis
    by simp
qed

section \<open>Properties of shiftTimestamps\<close>

lemma Math_max_zero_kept: "keptStart t \<Longrightarrow> Math_max (Fin 0) (js_add t (Fin 0)) = t"
  by (cases t) (auto simp: keptStart_def js_ge_def Math_max_def)

lemma shiftEnd_zero_kept: "keptEnd e \<Longrightarrow> shiftEnd e (Fin 0) = e"
  by (cases e; cases "the e")
     (auto simp: keptEnd_def shiftEnd_def js_gt_def truthy_def Math_max_def)

lemma shiftWord_zero_kept: "keptWord w \<Longrightarrow> wordTimes (shiftWord (Fin 0) w) = wordTimes w"
  by (simp add: keptWord_def wordTimes_def shiftWord_def Math_max_zero_kept shiftEnd_zero_kept)

lemma shiftLine_zero_kept:
  assumes "keptLine l"
  shows "lineTimes (shiftLine (Fin 0) l) = lineTimes l"
proof -
  have "map (wordTimes \<circ> shiftWord (Fin 0)) (words l) = map wordTimes (words l)"
    using assms by (intro map_cong) (auto simp: keptLine_def list_all_iff shiftWord_zero_kept)
  then show ?thesis
    using assms
    by (simp add: keptLine_def lineTimes_def shiftLine_def Math_max_zero_kept shiftEnd_zero_kept)
qed

text \<open>
  C6, as amended. For every document whose line and word start times are all at
  least zero (and not NaN) and whose present end times are all above zero,
  shiftTimestamps(doc, 0) leaves every line's and every word's startTime and
  endTime unchanged, the presence of endTime included.
\<close>

theorem shiftTimestamps_zero_identity:
  assumes "list_all keptLine (lines doc)"
  shows "docTimes (shiftTimestamps doc (Fin 0)) = docTimes doc"
proof -
  have "map (lineTimes \<circ> shiftLine (Fin 0)) (lines doc) = map lineTimes (lines doc)"
    using assms by (intro map_cong) (auto simp: list_all_iff shiftLine_zero_kept)
  then show ?thesis
    by (simp add: docTimes_def shiftTimestamps_def)
qed

theorem shiftTimestamps_zero_identity_witness:
  "list_all keptLine (lines keptDoc) \<and>
   docTimes (shiftTimestamps keptDoc (Fin 0)) = [(Fin 1, Some (Fin 6), [(Fin 1, Some (Fin 6))])]"
proof -
  have k: "list_all keptLine (lines keptDoc)"
    by (simp add: keptDoc_def keptLine_def keptWord_def keptStart_def keptEnd_def
        js_ge_def js_gt_def)
  have "docTimes keptDoc = [(Fin 1, Some (Fin 6), [(Fin 1, Some (Fin 6))])]"
    by (simp add: keptDoc_def docTimes_def lineTimes_def wordTimes_def)
  with k shiftTimestamps_zero_identity [OF k] show ?thesis by simp
qed

text \<open>
  The claim as written fails on a line that starts below zero: the shift by zero
  clamps it to zero. The TTML parser returns such a line for \<^verbatim>\<open>begin="-5s"\<close>.
\<close>

lemma negativeTTML_parsed:
  "map startTime (lines (parseTTMLDocument ids negativeTTML)) = [Fin (- 5)]"
  by (simp add: ttml_eval negativeTTML_def)

theorem shiftTimestamps_zero_counterexample:
  "docTimes (shiftTimestamps (parseTTMLDocument exampleIds negativeTTML) (Fin 0)) \<noteq>
   docTimes (parseTTMLDocument exampleIds negativeTTML)"
proof -
  let ?doc = "parseTTMLDocument exampleIds negativeTTML"
  have "map startTime (lines ?doc) = [Fin (- 5)]"
    by (rule negativeTTML_parsed)
  then obtain l where l: "lines ?doc = [l]" and s: "startTime l = Fin (- 5)"
    by (cases "lines ?doc") auto
  have "map startTime (lines (shiftTimestamps ?doc (Fin 0))) = [Fin 0]"
    by (simp add: shiftTimestamps_def shiftLine_def l s Math_max_def)
  moreover have "map startTime (lines ?doc) = [Fin (- 5)]"
    by (simp add: l s)
  ultimately have "map (fst \<circ> lineTimes) (lines (shiftTimestamps ?doc (Fin 0))) \<noteq>
                   map (fst \<circ> lineTimes) (lines ?doc)"
    by (simp add: lineTimes_def comp_def)
  then show ?thesis
    unfolding docTimes_def by (metis map_map)
qed

text \<open>
  An end time of exactly zero is lost as well, whatever the offset: the test
  \<^verbatim>\<open>x.endTime ? \<dots> : undefined\<close> takes \<^verbatim>\<open>0\<close> for an absent end time. The LRC parser
  gives the first word of \<^verbatim>\<open>[00:00.00]a b\<close> the end time 0.
\<close>

lemma shiftTimestamps_zero_end:
  "docTimes (parseLRC ids ''[00:00.00]a b'') =
     [(Fin 0, Some (Fin 5), [(Fin 0, Some (Fin 0)), (Fin 0, Some (Fin 5))])] \<and>
   docTimes (shiftTimestamps (parseLRC ids ''[00:00.00]a b'') (Fin 0)) =
     [(Fin 0, Some (Fin 5), [(Fin 0, None), (Fin 0, Some (Fin 5))])]"
proof -
  have d: "docTimes (parseLRC ids ''[00:00.00]a b'') =
     [(Fin 0, Some (Fin 5), [(Fin 0, Some (Fin 0)), (Fin 0, Some (Fin 5))])]"
    by (simp add: lrc_eval docTimes_def lineTimes_def wordTimes_def)
  have "docTimes (shiftTimestamps doc (Fin 0)) =
        map (\<lambda>(s, e, ws). (Math_max (Fin 0) (js_add s (Fin 0)), shiftEnd e (Fin 0),
               map (\<lambda>(s, e). (Math_max (Fin 0) (js_add s (Fin 0)), shiftEnd e (Fin 0))) ws))
          (docTimes doc)" for doc
    by (simp add: docTimes_def shiftTimestamps_def shiftLine_def shiftWord_def lineTimes_def
        wordTimes_def comp_def)
  with d show ?thesis
    by (simp add: shiftEnd_def truthy_def Math_max_def)
qed

text \<open>
  C10. For every document and every offset, shiftTimestamps changes only start
  and end times: the format and the metadata of the document, the number and
  order of its lines, and every line's and word's id, text, rawText, voice,
  isBackground flag and attribute bag are those of the input.
\<close>

theorem shiftTimestamps_frame:
  "format (shiftTimestamps doc offsetSeconds) = format doc \<and>
   metadata (shiftTimestamps doc offsetSeconds) = metadata doc \<and>
   map lineFrame (lines (shiftTimestamps doc offsetSeconds)) = map lineFrame (lines doc)"
proof -
  have w: "wordFrame (shiftWord offsetSeconds w) = wordFrame w" for w
    by (simp add: wordFrame_def shiftWord_def)
  have "lineFrame (shiftLine offsetSeconds l) = lineFrame l" for l
    by (simp add: lineFrame_def shiftLine_def comp_def w)
  then show ?thesis
    by (simp add: shiftTimestamps_def comp_def)
qed

end
